theory Spec2Isabelle
  imports Complex_Main
begin

section \<open>The agent decision flow of the query responder (backend/app.py)\<close>

text \<open>
  The development embeds \<^verbatim>\<open>agent_decision_flow\<close> and the tool functions it calls
  (\<^verbatim>\<open>retrieve_from_docs\<close>, \<^verbatim>\<open>check_exact_match\<close>, \<^verbatim>\<open>search_web\<close>,
  \<^verbatim>\<open>check_relevance\<close>, \<^verbatim>\<open>check_for_ambiguity\<close>) of \<^verbatim>\<open>src/backend/app.py\<close>.

  The module's globals are made explicit. The three collaborators (vector store, language
  model, web search client) are fields of an environment record; each is \<open>None\<close> while the
  global is still \<^verbatim>\<open>None\<close>. The dictionary \<^verbatim>\<open>session_store\<close> is a map that every
  function takes and returns. Every call that reaches a collaborator is appended to a trace,
  and a collaborator answers as a function of the trace so far and of its arguments, so that
  two calls with the same arguments may be answered differently. A collaborator either returns
  a value or raises; \<open>Inl\<close> is the raised exception.
\<close>

subsection \<open>Strings\<close>

text \<open>
  A Python string is modelled as a list of 8-bit characters read as the code points 0 to 255.
  On that range \<^verbatim>\<open>str.lower\<close> maps A to Z and the capital letters of Latin-1 (192 to 222,
  without the multiplication sign 215) to the code point 32 above, and \<^verbatim>\<open>str.isspace\<close>
  holds of 9 to 13, 28 to 32, 133 and 160. Code points above 255 are outside the model.
\<close>

definition lower_char :: "char \<Rightarrow> char" where
  "lower_char c =
     (let n = (of_char c :: nat)
      in if (65 \<le> n \<and> n \<le> 90) \<or> (192 \<le> n \<and> n \<le> 222 \<and> n \<noteq> 215)
         then char_of (n + 32) else c)"

definition lower :: "string \<Rightarrow> string" where
  "lower s = map lower_char s"

definition isspace :: "char \<Rightarrow> bool" where
  "isspace c =
     (let n = (of_char c :: nat)
      in (9 \<le> n \<and> n \<le> 13) \<or> (28 \<le> n \<and> n \<le> 32) \<or> n = 133 \<or> n = 160)"

definition strip :: "string \<Rightarrow> string" where
  "strip s = rev (dropWhile isspace (rev (dropWhile isspace s)))"

definition startswith :: "string \<Rightarrow> string \<Rightarrow> bool" where
  "startswith s p = (take (length p) s = p)"

text \<open>\<^verbatim>\<open>sub in s\<close>: \<open>sub\<close> occurs in \<open>s\<close> as a contiguous block.\<close>

fun contains :: "string \<Rightarrow> string \<Rightarrow> bool" where
  "contains sub [] = (sub = [])"
| "contains sub (c # cs) = (startswith (c # cs) sub \<or> contains sub cs)"

text \<open>\<^verbatim>\<open>sep.join(xs)\<close>\<close>

fun join :: "string \<Rightarrow> string list \<Rightarrow> string" where
  "join sep [] = []"
| "join sep [x] = x"
| "join sep (x # y # ys) = x @ sep @ join sep (y # ys)"

subsection \<open>Data\<close>

text \<open>
  The six prompt templates of \<^verbatim>\<open>prompt_library.py\<close> that \<^verbatim>\<open>app.py\<close> imports and pipes
  into the model. Only the identity of the template matters to the flow.
\<close>

datatype prompt =
    RAG_PROMPT_TEMPLATE
  | WEB_SYNTHESIS_PROMPT_TEMPLATE
  | RELEVANCE_GRADER_PROMPT
  | CLARIFICATION_PROMPT
  | FINETUNE_RESPONSE_PROMPT_TEMPLATE
  | REPHRASE_PROMPT

text \<open>An exception, with the text that \<^verbatim>\<open>str(e)\<close> gives.\<close>

datatype exn = Exception string

fun str :: "exn \<Rightarrow> string" where
  "str (Exception msg) = msg"

text \<open>
  A call that reaches a collaborator:
  \<^verbatim>\<open>vectorstore.similarity_search_with_score(query, k=k)\<close>, \<^verbatim>\<open>serper_search.run(query)\<close>,
  and \<^verbatim>\<open>(prompt | llm | StrOutputParser()).invoke(inputs)\<close> with the input dictionary as
  the list of its items.
\<close>

datatype call =
    Similarity_search_with_score string nat
  | Serper_run string
  | Llm_invoke prompt "(string \<times> string) list"

type_synonym trace = "call list"

text \<open>
  A retrieved chunk: its \<^verbatim>\<open>page_content\<close> and \<^verbatim>\<open>metadata.get('source')\<close>. The distance
  score that comes with it is a finite float, modelled by the rational number it denotes.
\<close>

record document =
  page_content :: string
  source :: "string option"

record env =
  vectorstore :: "(trace \<Rightarrow> string \<Rightarrow> nat \<Rightarrow> exn + (document \<times> rat) list) option"
  llm :: "(trace \<Rightarrow> prompt \<Rightarrow> (string \<times> string) list \<Rightarrow> exn + string) option"
  serper_search :: "(trace \<Rightarrow> string \<Rightarrow> exn + string) option"
  pipe_none_error :: exn
  hash_slot :: "string \<Rightarrow> nat"

text \<open>
  \<open>pipe_none_error\<close> is the exception that \<^verbatim>\<open>prompt | llm\<close> raises in the library when
  \<^verbatim>\<open>llm\<close> is \<^verbatim>\<open>None\<close>; the library is not part of the repository, so the exception is a
  parameter.

  \<open>hash_slot\<close> stands for the hash seed of the process: a Python set of strings iterates
  in the order of its hash table, so the order of \<^verbatim>\<open>list(set(xs))\<close> changes from one
  process to the next. A string with a smaller slot comes first.

  The only values ever written to \<^verbatim>\<open>session_store\<close> are the two dictionaries
  \<^verbatim>\<open>{'last_agent_action': 'awaiting_clarification', 'last_query': q}\<close> and
  \<^verbatim>\<open>{'last_agent_action': 'awaiting_web_permission', 'last_query': q}\<close>.
\<close>

datatype agent_action = awaiting_web_permission | awaiting_clarification

record session =
  last_agent_action :: agent_action
  last_query :: string

type_synonym store = "string \<rightharpoonup> session"

type_synonym response = "string \<times> string \<times> string list"

subsection \<open>The tools\<close>

text \<open>
  The float literal \<^verbatim>\<open>0.7\<close> is the double nearest to seven tenths,
  \<open>3152519739159347 / 2 ^ 52\<close>; both comparisons below are against that value.
\<close>

definition score_threshold :: rat where
  "score_threshold = 3152519739159347 / 4503599627370496"

definition separator :: string where
  "separator = [CHR 0x0A, CHR 0x0A, CHR ''-'', CHR ''-'', CHR ''-'', CHR 0x0A, CHR 0x0A]"

text \<open>Lines 104 to 107 of \<^verbatim>\<open>retrieve_from_docs\<close>: keep the chunks with \<^verbatim>\<open>score <= 0.7\<close>.\<close>

fun filter_chunks :: "(document \<times> rat) list \<Rightarrow> (document \<times> rat) list" where
  "filter_chunks [] = []"
| "filter_chunks ((doc, score) # rest) =
     (if score \<le> score_threshold then (doc, score) # filter_chunks rest
      else filter_chunks rest)"

text \<open>
  \<^verbatim>\<open>list(set([doc.metadata.get('source', 'N/A') for doc in final_document_list]))\<close>: one copy
  of each source, in the order of the set, which is the order of the slots.
\<close>

definition source_name :: "document \<Rightarrow> string" where
  "source_name doc = (case source doc of None \<Rightarrow> ''N/A'' | Some s \<Rightarrow> s)"

definition sources_of :: "env \<Rightarrow> document list \<Rightarrow> string list" where
  "sources_of env docs = sort_key (hash_slot env) (remdups (map source_name docs))"

definition retrieve_from_docs :: "env \<Rightarrow> trace \<Rightarrow> string \<Rightarrow> (string \<times> string list) \<times> trace" where
  "retrieve_from_docs env tr query =
     (case vectorstore env of
        None \<Rightarrow> ((''Error: Document database not initialized.'', []), tr)
      | Some search \<Rightarrow>
          (case search tr query 8 of
             Inl e \<Rightarrow>
               ((''Error during local document retrieval: '' @ str e, []),
                tr @ [Similarity_search_with_score query 8])
           | Inr initial_chunks \<Rightarrow>
               (let filtered_chunks = filter_chunks initial_chunks
                in if filtered_chunks = []
                   then ((''No relevant documents found that meet the quality threshold.'', []),
                         tr @ [Similarity_search_with_score query 8])
                   else (let final_document_list = map fst filtered_chunks
                         in ((join separator (map page_content final_document_list),
                              sources_of env final_document_list),
                             tr @ [Similarity_search_with_score query 8])))))"

text \<open>
  Lines 169 to 178 of \<^verbatim>\<open>check_exact_match\<close>: the first chunk with \<^verbatim>\<open>score < 0.7\<close>
  ends the loop with the trigger; otherwise the result is \<^verbatim>\<open>None\<close>.
\<close>

fun scan_scores :: "(document \<times> rat) list \<Rightarrow> (string \<times> string list) option" where
  "scan_scores [] = None"
| "scan_scores ((doc, score) # rest) =
     (if score < score_threshold then Some (''trigger_success'', []) else scan_scores rest)"

text \<open>
  \<^verbatim>\<open>check_exact_match\<close> searches twice with \<^verbatim>\<open>k=3\<close> (lines 149 and 166); the first
  result is only printed. Any exception gives \<^verbatim>\<open>None\<close>.
\<close>

definition check_exact_match :: "env \<Rightarrow> trace \<Rightarrow> string \<Rightarrow> (string \<times> string list) option \<times> trace" where
  "check_exact_match env tr query =
     (case vectorstore env of
        None \<Rightarrow> (None, tr)
      | Some search \<Rightarrow>
          (case search tr query 3 of
             Inl e \<Rightarrow> (None, tr @ [Similarity_search_with_score query 3])
           | Inr printed \<Rightarrow>
               (case search (tr @ [Similarity_search_with_score query 3]) query 3 of
                  Inl e \<Rightarrow>
                    (None, tr @ [Similarity_search_with_score query 3,
                                 Similarity_search_with_score query 3])
                | Inr docs_with_score \<Rightarrow>
                    (scan_scores docs_with_score,
                     tr @ [Similarity_search_with_score query 3,
                           Similarity_search_with_score query 3]))))"

definition search_web :: "env \<Rightarrow> trace \<Rightarrow> string \<Rightarrow> string \<times> trace" where
  "search_web env tr query =
     (case serper_search env of
        None \<Rightarrow> (''Error: Web search tool not initialized.'', tr)
      | Some run \<Rightarrow>
          (case run tr query of
             Inr search_results \<Rightarrow> (search_results, tr @ [Serper_run query])
           | Inl e \<Rightarrow> (''Error performing web search: '' @ str e, tr @ [Serper_run query])))"

text \<open>
  \<^verbatim>\<open>(prompt | llm | StrOutputParser()).invoke(inputs)\<close>: building the chain raises when
  \<^verbatim>\<open>llm\<close> is \<^verbatim>\<open>None\<close>, before anything is sent.
\<close>

definition invoke_chain :: "env \<Rightarrow> trace \<Rightarrow> prompt \<Rightarrow> (string \<times> string) list \<Rightarrow> (exn + string) \<times> trace" where
  "invoke_chain env tr p inputs =
     (case llm env of
        None \<Rightarrow> (Inl (pipe_none_error env), tr)
      | Some model \<Rightarrow> (model tr p inputs, tr @ [Llm_invoke p inputs]))"

definition check_relevance :: "env \<Rightarrow> trace \<Rightarrow> string \<Rightarrow> string \<Rightarrow> bool \<times> trace" where
  "check_relevance env tr question context =
     (if llm env = None then (False, tr)
      else (case invoke_chain env tr RELEVANCE_GRADER_PROMPT
                   [(''question'', question), (''context'', context)] of
              (Inr grade, tr') \<Rightarrow> (startswith (lower (strip grade)) ''yes'', tr')
            | (Inl e, tr') \<Rightarrow> (False, tr')))"

definition check_for_ambiguity :: "env \<Rightarrow> trace \<Rightarrow> string \<Rightarrow> string option \<times> trace" where
  "check_for_ambiguity env tr query =
     (if llm env = None then (None, tr)
      else (case invoke_chain env tr CLARIFICATION_PROMPT [(''question'', query)] of
              (Inr response, tr') \<Rightarrow>
                (if response \<noteq> [] \<and> lower (strip response) = ''clear'' then (Some ''clear'', tr')
                 else if response \<noteq> [] then (Some response, tr')
                 else (None, tr'))
            | (Inl e, tr') \<Rightarrow> (None, tr')))"

subsection \<open>The orchestrator\<close>

text \<open>
  \<^verbatim>\<open>agent_decision_flow\<close> (lines 367 to 472) is split where its control flow joins. Lines
  375 to 415 look at the session: they return a response, or raise, or go on to line 419 with
  the query to answer, which is the input or its rephrasing.
\<close>

datatype outcome = Return response | Continue string

definition session_phase ::
  "env \<Rightarrow> store \<Rightarrow> trace \<Rightarrow> string \<Rightarrow> string \<Rightarrow> (exn + outcome) \<times> store \<times> trace" where
  "session_phase env session_store tr input_query session_id =
     (case session_store session_id of
        Some session_state \<Rightarrow>
          (case last_agent_action session_state of
             awaiting_web_permission \<Rightarrow>
               (if lower input_query \<in> set [''yes'', ''y'', ''sure'', ''ok'']
                then (case search_web env tr (last_query session_state) of
                        (tool_output, tr1) \<Rightarrow>
                          (case invoke_chain env tr1 WEB_SYNTHESIS_PROMPT_TEMPLATE
                                  [(''question'', last_query session_state),
                                   (''search_results'', tool_output)] of
                             (Inr final_answer, tr2) \<Rightarrow>
                               (Inr (Return (final_answer, ''Agent + Web Search'', [])),
                                session_store(session_id := None), tr2)
                           | (Inl e, tr2) \<Rightarrow> (Inl e, session_store(session_id := None), tr2)))
                else (Inr (Return (''Understood. I will not perform a web search at this time.'',
                                   ''Agent Response'', [])),
                      session_store(session_id := None), tr))
           | awaiting_clarification \<Rightarrow>
               (case invoke_chain env tr REPHRASE_PROMPT
                       [(''original_question'', last_query session_state),
                        (''clarification_detail'', input_query)] of
                  (Inr new_query, tr1) \<Rightarrow>
                    (Inr (Continue new_query), session_store(session_id := None), tr1)
                | (Inl e, tr1) \<Rightarrow> (Inl e, session_store, tr1)))
      | None \<Rightarrow>
          (case check_for_ambiguity env tr input_query of
             (Some ambiguity_check, tr1) \<Rightarrow>
               (if ambiguity_check \<noteq> [] \<and> ambiguity_check \<noteq> ''clear''
                then (Inr (Return (ambiguity_check, ''Agent (Clarification)'', [])),
                      session_store(session_id \<mapsto>
                        \<lparr>last_agent_action = awaiting_clarification, last_query = input_query\<rparr>),
                      tr1)
                else (Inr (Continue input_query), session_store, tr1))
           | (None, tr1) \<Rightarrow> (Inr (Continue input_query), session_store, tr1)))"

definition permission_question :: string where
  "permission_question =
     ''I couldn't find a good answer in the available documents. '' @
     ''Would you like me to search the web for you? (yes/no)''"

text \<open>Lines 419 to 467: the high-confidence trigger, then the standard path.\<close>

definition rag_phase ::
  "env \<Rightarrow> store \<Rightarrow> trace \<Rightarrow> string \<Rightarrow> string \<Rightarrow> (exn + response) \<times> store \<times> trace" where
  "rag_phase env session_store tr input_query session_id =
     (case check_exact_match env tr input_query of
        (Some exact_match_response, tr1) \<Rightarrow>
          (case retrieve_from_docs env tr1 input_query of
             ((context_text, sources), tr2) \<Rightarrow>
               (if contains ''Error'' context_text \<or> contains ''No relevant documents'' context_text
                then (Inr (''I found a potential match but was unable to retrieve the full context.'',
                           ''System Error'', []),
                      session_store, tr2)
                else (case invoke_chain env tr2 RAG_PROMPT_TEMPLATE
                             [(''context'', context_text), (''question'', input_query)] of
                        (Inr final_answer, tr3) \<Rightarrow>
                          (Inr (final_answer, ''Agent (High-Confidence RAG)'', sources),
                           session_store, tr3)
                      | (Inl e, tr3) \<Rightarrow> (Inl e, session_store, tr3))))
      | (None, tr1) \<Rightarrow>
          (case retrieve_from_docs env tr1 input_query of
             ((tool_output, sources), tr2) \<Rightarrow>
               (case (if \<not> contains ''Error'' tool_output
                         \<and> \<not> contains ''No relevant documents'' tool_output
                      then check_relevance env tr2 input_query tool_output
                      else (False, tr2)) of
                  (local_search_successful, tr3) \<Rightarrow>
                    (if local_search_successful
                     then (case invoke_chain env tr3 RAG_PROMPT_TEMPLATE
                                  [(''context'', tool_output), (''question'', input_query)] of
                             (Inr final_answer, tr4) \<Rightarrow>
                               (Inr (final_answer, ''Agent + Internal Docs'', sources),
                                session_store, tr4)
                           | (Inl e, tr4) \<Rightarrow> (Inl e, session_store, tr4))
                     else (Inr (permission_question, ''Agent (Multi-turn)'', []),
                           session_store(session_id \<mapsto>
                             \<lparr>last_agent_action = awaiting_web_permission,
                              last_query = input_query\<rparr>),
                           tr3)))))"

text \<open>The body of the \<^verbatim>\<open>try\<close> block, lines 373 to 467.\<close>

definition agent_flow_body ::
  "env \<Rightarrow> store \<Rightarrow> trace \<Rightarrow> string \<Rightarrow> string \<Rightarrow> (exn + response) \<times> store \<times> trace" where
  "agent_flow_body env session_store tr input_query session_id =
     (case session_phase env session_store tr input_query session_id of
        (Inl e, store1, tr1) \<Rightarrow> (Inl e, store1, tr1)
      | (Inr (Return r), store1, tr1) \<Rightarrow> (Inr r, store1, tr1)
      | (Inr (Continue query), store1, tr1) \<Rightarrow> rag_phase env store1 tr1 query session_id)"

text \<open>Lines 469 to 472: \<^verbatim>\<open>except Exception as e\<close>.\<close>

definition system_error :: "exn \<Rightarrow> response" where
  "system_error e = (''An internal agent error occurred: '' @ str e, ''System Error'', [])"

definition agent_decision_flow ::
  "env \<Rightarrow> store \<Rightarrow> trace \<Rightarrow> string \<Rightarrow> string \<Rightarrow> response \<times> store \<times> trace" where
  "agent_decision_flow env session_store tr input_query session_id =
     (case agent_flow_body env session_store tr input_query session_id of
        (Inr r, store1, tr1) \<Rightarrow> (r, store1, tr1)
      | (Inl e, store1, tr1) \<Rightarrow> (system_error e, store1, tr1))"

subsection \<open>Reading a trace\<close>

text \<open>The calls made during a turn that started at trace \<open>tr\<close> and ended at \<open>tr'\<close>.\<close>

definition turn_calls :: "trace \<Rightarrow> trace \<Rightarrow> trace" where
  "turn_calls tr tr' = drop (length tr) tr'"

fun is_web_search :: "call \<Rightarrow> bool" where
  "is_web_search (Serper_run query) = True"
| "is_web_search (Similarity_search_with_score query k) = False"
| "is_web_search (Llm_invoke p inputs) = False"

fun is_retrieval :: "call \<Rightarrow> bool" where
  "is_retrieval (Similarity_search_with_score query k) = True"
| "is_retrieval (Serper_run query) = False"
| "is_retrieval (Llm_invoke p inputs) = False"

fun uses_prompt :: "prompt \<Rightarrow> call \<Rightarrow> bool" where
  "uses_prompt p (Llm_invoke p' inputs) = (p' = p)"
| "uses_prompt p (Similarity_search_with_score query k) = False"
| "uses_prompt p (Serper_run query) = False"

text \<open>\<open>tr'\<close> is \<open>tr\<close> followed by calls of the set \<open>A\<close> only.\<close>

definition extends_with :: "call set \<Rightarrow> trace \<Rightarrow> trace \<Rightarrow> bool" where
  "extends_with A tr tr' = (\<exists>new. tr' = tr @ new \<and> set new \<subseteq> A)"

subsection \<open>Collaborators for the scenarios\<close>

text \<open>
  A vector store that answers every search with \<open>chunks\<close>, a model that answers the
  ambiguity prompt with \<open>ambiguity\<close> and the grading prompt with \<open>grade\<close>, and a web
  search that returns a fixed text.
\<close>

definition chunk :: "string \<Rightarrow> string \<Rightarrow> document" where
  "chunk text file = \<lparr>page_content = text, source = Some file\<rparr>"

definition scenario_llm :: "string \<Rightarrow> string \<Rightarrow> trace \<Rightarrow> prompt \<Rightarrow> (string \<times> string) list \<Rightarrow> exn + string" where
  "scenario_llm ambiguity grade tr p inputs =
     (case p of
        CLARIFICATION_PROMPT \<Rightarrow> Inr ambiguity
      | RELEVANCE_GRADER_PROMPT \<Rightarrow> Inr grade
      | REPHRASE_PROMPT \<Rightarrow> Inr ''What are Acme Corp's sustainability initiatives?''
      | RAG_PROMPT_TEMPLATE \<Rightarrow> Inr ''An answer from the documents.''
      | WEB_SYNTHESIS_PROMPT_TEMPLATE \<Rightarrow> Inr ''An answer from the web.''
      | FINETUNE_RESPONSE_PROMPT_TEMPLATE \<Rightarrow> Inr [])"

definition scenario_env :: "(document \<times> rat) list \<Rightarrow> string \<Rightarrow> string \<Rightarrow> env" where
  "scenario_env chunks ambiguity grade =
     \<lparr>vectorstore = Some (\<lambda>tr query k. Inr chunks),
      llm = Some (scenario_llm ambiguity grade),
      serper_search = Some (\<lambda>tr query. Inr ''Web results''),
      pipe_none_error = Exception ''Expected a Runnable, callable or dict.'',
      hash_slot = length\<rparr>"

text \<open>The same collaborators with a model whose every call raises.\<close>

definition failing_llm_env :: "(document \<times> rat) list \<Rightarrow> env" where
  "failing_llm_env chunks =
     (scenario_env chunks [] [])\<lparr>llm := Some (\<lambda>tr p inputs. Inl (Exception ''timed out''))\<rparr>"

text \<open>
  A model that answers the ambiguity and grading prompts and raises on every rephrasing and
  synthesis call, and a vector store whose every search raises.
\<close>

definition failing_synthesis_env :: "(document \<times> rat) list \<Rightarrow> env" where
  "failing_synthesis_env chunks =
     (scenario_env chunks [] [])\<lparr>llm := Some (\<lambda>tr p inputs.
        case p of
          CLARIFICATION_PROMPT \<Rightarrow> Inr ''clear''
        | RELEVANCE_GRADER_PROMPT \<Rightarrow> Inr ''yes''
        | REPHRASE_PROMPT \<Rightarrow> Inl (Exception ''timed out'')
        | RAG_PROMPT_TEMPLATE \<Rightarrow> Inl (Exception ''timed out'')
        | WEB_SYNTHESIS_PROMPT_TEMPLATE \<Rightarrow> Inl (Exception ''timed out'')
        | FINETUNE_RESPONSE_PROMPT_TEMPLATE \<Rightarrow> Inl (Exception ''timed out''))\<rparr>"

definition failing_store_env :: env where
  "failing_store_env =
     (scenario_env [] ''clear'' ''yes'')\<lparr>vectorstore :=
        Some (\<lambda>tr query k. Inl (Exception ''connection refused''))\<rparr>"

definition pending :: "agent_action \<Rightarrow> string \<Rightarrow> session" where
  "pending action query = \<lparr>last_agent_action = action, last_query = query\<rparr>"

section \<open>Properties\<close>

subsection \<open>Strings\<close>

lemma startswith_iff: "startswith s p \<longleftrightarrow> (\<exists>r. s = p @ r)"
  unfolding startswith_def
  by (metis append_eq_conv_conj append_take_drop_id)

lemma contains_iff: "contains sub s \<longleftrightarrow> (\<exists>a b. s = a @ sub @ b)"
proof (induction s)
  case Nil
  then show ?case by auto
next
  case (Cons c cs)
  show ?case
  proof
    assume "contains sub (c # cs)"
    then consider "startswith (c # cs) sub" | "contains sub cs" by auto
    then show "\<exists>a b. c # cs = a @ sub @ b"
    proof cases
      case 1
      then obtain r where "c # cs = sub @ r" by (auto simp: startswith_iff)
      then have "c # cs = [] @ sub @ r" by simp
      then show ?thesis by blast
    next
      case 2
      then obtain a b where "cs = a @ sub @ b" using Cons.IH by auto
      then have "c # cs = (c # a) @ sub @ b" by simp
      then show ?thesis by blast
    qed
  next
    assume "\<exists>a b. c # cs = a @ sub @ b"
    then obtain a b where ab: "c # cs = a @ sub @ b" by auto
    show "contains sub (c # cs)"
    proof (cases a)
      case Nil
      then have "startswith (c # cs) sub" using ab by (auto simp: startswith_iff)
      then show ?thesis by simp
    next
      case (Cons x xs)
      then have "cs = xs @ sub @ b" using ab by simp
      then show ?thesis using Cons.IH by auto
    qed
  qed
qed

lemmas string_eval =
  lower_def lower_char_def char_of_def bit_Suc_0_iff strip_def isspace_def startswith_def

subsection \<open>The order of the sources\<close>

lemma sources_of_set:
  "set (sources_of env docs) = source_name ` set docs \<and> distinct (sources_of env docs)"
  by (simp add: sources_of_def)

lemma position_nth:
  "x \<in> set ys \<Longrightarrow>
     length (takeWhile (\<lambda>y. y \<noteq> x) ys) < length ys
     \<and> ys ! length (takeWhile (\<lambda>y. y \<noteq> x) ys) = x"
  by (induction ys) auto

text \<open>Every order of the distinct sources is the order of some slots.\<close>

lemma sources_of_any_order:
  assumes "distinct ys" and "set ys = source_name ` set docs"
  shows "\<exists>slot. sources_of (env\<lparr>hash_slot := slot\<rparr>) docs = ys"
proof -
  let ?slot = "\<lambda>x. length (takeWhile (\<lambda>y. y \<noteq> x) ys)"
  let ?names = "remdups (map source_name docs)"
  have at: "?slot (ys ! i) = i" if "i < length ys" for i
  proof -
    have "ys ! i \<in> set ys" using that by simp
    from position_nth [OF this] show ?thesis
      using assms(1) that nth_eq_iff_index_eq by blast
  qed
  have "map ?slot ys = [0..<length ys]"
    by (rule nth_equalityI) (simp_all add: at)
  then have sorted_ys: "sorted (map ?slot ys)" and distinct_ys: "distinct (map ?slot ys)"
    by simp_all
  have names: "set ?names = set ys" using assms(2) by simp
  have inj_ys: "inj_on ?slot (set ys)"
    using distinct_ys by (simp add: distinct_map)
  have same: "set (sort_key ?slot ?names) = set ys"
    using names by (simp del: set_remdups)
  have inj: "inj_on ?slot (set (sort_key ?slot ?names) \<union> set ys)"
    using inj_ys by (simp only: same Un_absorb)
  have "distinct (sort_key ?slot ?names)" by simp
  then have "distinct (map ?slot (sort_key ?slot ?names))"
    using inj_ys by (simp only: distinct_map same)
  with inj sorted_ys distinct_ys same
  have "sort_key ?slot ?names = ys"
    by (intro map_sorted_distinct_set_unique [of ?slot]) simp_all
  then have "sources_of (env\<lparr>hash_slot := ?slot\<rparr>) docs = ys"
    by (simp add: sources_of_def)
  then show ?thesis by blast
qed

subsection \<open>The two thresholds\<close>

lemma filter_chunks_eq: "filter_chunks cs = filter (\<lambda>(d, s). s \<le> score_threshold) cs"
  by (induction cs rule: filter_chunks.induct) auto

lemma scan_scores_Some:
  "scan_scores cs = Some t \<longleftrightarrow>
     t = (''trigger_success'', []) \<and> (\<exists>(d, s) \<in> set cs. s < score_threshold)"
  by (induction cs rule: scan_scores.induct) auto

text \<open>
  C10. A chunk whose score is exactly the threshold is kept by the filter of
  \<^verbatim>\<open>retrieve_from_docs\<close> (\<^verbatim>\<open>score <= 0.7\<close>) and does not trigger \<^verbatim>\<open>check_exact_match\<close>
  (\<^verbatim>\<open>score < 0.7\<close>). So with a vector store that returns that chunk, the confidence check
  answers \<^verbatim>\<open>None\<close> while retrieval returns the chunk's text as its context, and the flow
  takes the standard path with that context.
\<close>

theorem threshold_boundary:
  "filter_chunks [(d, score_threshold)] = [(d, score_threshold)]
   \<and> scan_scores [(d, score_threshold)] = None
   \<and> fst (check_exact_match
            (env\<lparr>vectorstore := Some (\<lambda>tr query k. Inr [(d, score_threshold)])\<rparr>) tr q) = None
   \<and> fst (retrieve_from_docs
            (env\<lparr>vectorstore := Some (\<lambda>tr query k. Inr [(d, score_threshold)])\<rparr>) tr' q)
       = (page_content d, [source_name d])
   \<and> fst (agent_decision_flow
            (scenario_env [(chunk ''Refunds take 30 days.'' ''policy.pdf'', score_threshold)]
               ''clear'' ''yes'')
            Map.empty [] ''What is the refund policy?'' ''10.0.0.7'')
       = (''An answer from the documents.'', ''Agent + Internal Docs'', [''policy.pdf''])"
  by (simp add: check_exact_match_def retrieve_from_docs_def agent_decision_flow_def
      agent_flow_body_def session_phase_def rag_phase_def check_for_ambiguity_def
      check_relevance_def invoke_chain_def scenario_env_def scenario_llm_def chunk_def
      sources_of_def source_name_def string_eval)

subsection \<open>The relevance grader\<close>

text \<open>
  C9. \<^verbatim>\<open>check_relevance\<close> returns \<^verbatim>\<open>True\<close> exactly when the model is initialised, its
  call returns, and the returned text, stripped and lower-cased, starts with \<^verbatim>\<open>yes\<close>.
  With no model, or when the call raises, the result is \<^verbatim>\<open>False\<close>.
\<close>

theorem check_relevance_fail_closed:
  "fst (check_relevance env tr question context) \<longleftrightarrow>
     (\<exists>model grade. llm env = Some model
        \<and> model tr RELEVANCE_GRADER_PROMPT [(''question'', question), (''context'', context)]
            = Inr grade
        \<and> startswith (lower (strip grade)) ''yes'')"
proof (cases "llm env")
  case None
  then show ?thesis by (simp add: check_relevance_def)
next
  case (Some model)
  let ?answer = "model tr RELEVANCE_GRADER_PROMPT [(''question'', question), (''context'', context)]"
  show ?thesis
  proof (cases ?answer)
    case (Inl e)
    with Some show ?thesis by (simp add: check_relevance_def invoke_chain_def)
  next
    case (Inr grade)
    with Some show ?thesis by (simp add: check_relevance_def invoke_chain_def)
  qed
qed

theorem check_relevance_fail_closed_witness:
  "fst (check_relevance (scenario_env [] ''clear'' '' Yes, it is. '') [] ''q'' ''c'')
   \<and> \<not> fst (check_relevance (scenario_env [] ''clear'' ''no'') [] ''q'' ''c'')
   \<and> \<not> fst (check_relevance (failing_llm_env []) [] ''q'' ''c'')
   \<and> \<not> fst (check_relevance ((scenario_env [] ''clear'' ''yes'')\<lparr>llm := None\<rparr>) [] ''q'' ''c'')"
  using check_relevance_fail_closed [of "scenario_env [] ''clear'' '' Yes, it is. ''" "[]" "''q''" "''c''"]
    check_relevance_fail_closed [of "scenario_env [] ''clear'' ''no''" "[]" "''q''" "''c''"]
    check_relevance_fail_closed [of "failing_llm_env []" "[]" "''q''" "''c''"]
    check_relevance_fail_closed
      [of "(scenario_env [] ''clear'' ''yes'')\<lparr>llm := None\<rparr>" "[]" "''q''" "''c''"]
  by (simp add: scenario_env_def scenario_llm_def failing_llm_env_def string_eval)

subsection \<open>What each tool adds to the trace\<close>

lemma extends_with_refl: "extends_with A tr tr"
  by (simp add: extends_with_def)

lemma extends_with_snoc: "c \<in> A \<Longrightarrow> extends_with A tr (tr @ [c])"
  by (simp add: extends_with_def)

lemma extends_with_trans:
  "extends_with A tr tr1 \<Longrightarrow> extends_with B tr1 tr2 \<Longrightarrow> extends_with (A \<union> B) tr tr2"
  unfolding extends_with_def by auto

lemma extends_with_no_call:
  assumes "extends_with A tr tr'" and "\<And>c. c \<in> A \<Longrightarrow> \<not> P c"
  shows "filter P (turn_calls tr tr') = []"
proof -
  from assms(1) obtain new where new: "tr' = tr @ new" "set new \<subseteq> A"
    by (auto simp: extends_with_def)
  then have "turn_calls tr tr' = new" by (simp add: turn_calls_def)
  moreover have "filter P new = []" using new(2) assms(2) by (auto simp: filter_empty_conv)
  ultimately show ?thesis by simp
qed

lemma check_exact_match_trace:
  "extends_with (Collect is_retrieval) tr (snd (check_exact_match env tr q))"
  by (auto simp: check_exact_match_def extends_with_def split: option.splits sum.splits)



lemma retrieve_from_docs_extends:
  "extends_with (Collect is_retrieval) tr (snd (retrieve_from_docs env tr q))"
  by (auto simp: retrieve_from_docs_def Let_def extends_with_def split: option.splits sum.splits)

lemma retrieve_from_docs_context:
  assumes "vectorstore env = Some search" and "search tr q 8 = Inr chunks"
    and "filter_chunks chunks \<noteq> []"
  shows "retrieve_from_docs env tr q =
           ((join separator (map (page_content \<circ> fst) (filter_chunks chunks)),
             sources_of env (map fst (filter_chunks chunks))),
            tr @ [Similarity_search_with_score q 8])"
  using assms by (simp add: retrieve_from_docs_def Let_def)

lemma check_relevance_trace:
  "extends_with (Collect (uses_prompt RELEVANCE_GRADER_PROMPT)) tr
     (snd (check_relevance env tr question context))"
  by (auto simp: check_relevance_def invoke_chain_def extends_with_def
      split: option.splits sum.splits)

lemma check_for_ambiguity_Some:
  "check_for_ambiguity env tr q = (Some a, tr') \<Longrightarrow>
     a \<noteq> [] \<and> tr' = tr @ [Llm_invoke CLARIFICATION_PROMPT [(''question'', q)]]"
  by (auto simp: check_for_ambiguity_def invoke_chain_def
      split: option.splits sum.splits if_splits)

lemma check_for_ambiguity_trace:
  "extends_with (Collect (uses_prompt CLARIFICATION_PROMPT)) tr
     (snd (check_for_ambiguity env tr q))"
  by (auto simp: check_for_ambiguity_def invoke_chain_def extends_with_def
      split: option.splits sum.splits)

lemma session_phase_Continue:
  assumes "session_phase env session_store tr q sid = (Inr (Continue q'), store1, tr1)"
  shows "store1 = session_store(sid := None)
         \<and> extends_with (Collect (uses_prompt CLARIFICATION_PROMPT)
                          \<union> Collect (uses_prompt REPHRASE_PROMPT)) tr tr1"
proof (cases "session_store sid")
  case None
  then have "store1 = session_store" and "tr1 = snd (check_for_ambiguity env tr q)"
    using assms by (auto simp: session_phase_def split: prod.splits option.splits if_splits)
  then show ?thesis
    using None check_for_ambiguity_trace [of tr env q]
      extends_with_trans [OF _ extends_with_refl] by (auto simp: fun_upd_idem)
next
  case (Some s)
  then have "last_agent_action s = awaiting_clarification"
    using assms by (auto simp: session_phase_def split: prod.splits sum.splits agent_action.splits if_splits)
  then have "store1 = session_store(sid := None)"
    and "tr1 = tr @ [Llm_invoke REPHRASE_PROMPT
           [(''original_question'', last_query s), (''clarification_detail'', q)]]"
    using assms Some
    by (auto simp: session_phase_def invoke_chain_def split: prod.splits sum.splits option.splits)
  then show ?thesis by (auto simp: extends_with_def)
qed

subsection \<open>A fresh session and an ambiguous query\<close>

text \<open>
  C7. When the session has no entry and \<^verbatim>\<open>check_for_ambiguity\<close> returns a text other than
  \<^verbatim>\<open>clear\<close>, the flow stores \<^verbatim>\<open>awaiting_clarification\<close> with the input query, returns that
  text unchanged with the label \<^verbatim>\<open>Agent (Clarification)\<close> and no sources, and the only call
  of the turn is the one to the model with the ambiguity prompt: no vector search, no web
  search, no synthesis.
\<close>

theorem ambiguous_query_asks_back:
  assumes "session_store session_id = None"
    and "check_for_ambiguity env tr input_query = (Some question, tr1)"
    and "question \<noteq> ''clear''"
  shows "agent_decision_flow env session_store tr input_query session_id =
           ((question, ''Agent (Clarification)'', []),
            session_store(session_id \<mapsto>
              \<lparr>last_agent_action = awaiting_clarification, last_query = input_query\<rparr>),
            tr @ [Llm_invoke CLARIFICATION_PROMPT [(''question'', input_query)]])"
proof -
  from assms(2) have "question \<noteq> []"
    and "tr1 = tr @ [Llm_invoke CLARIFICATION_PROMPT [(''question'', input_query)]]"
    using check_for_ambiguity_Some by blast+
  with assms show ?thesis
    by (simp add: agent_decision_flow_def agent_flow_body_def session_phase_def)
qed

theorem ambiguous_query_asks_back_witness:
  "agent_decision_flow
     (scenario_env [] ''Which company are you referring to in this question?'' ''no'')
     Map.empty [] ''What are your sustainability initiatives?'' ''10.0.0.7'' =
   ((''Which company are you referring to in this question?'', ''Agent (Clarification)'', []),
    [''10.0.0.7'' \<mapsto> pending awaiting_clarification ''What are your sustainability initiatives?''],
    [Llm_invoke CLARIFICATION_PROMPT [(''question'', ''What are your sustainability initiatives?'')]])"
proof -
  let ?env = "scenario_env [] ''Which company are you referring to in this question?'' ''no''"
  have a: "check_for_ambiguity ?env [] ''What are your sustainability initiatives?'' =
      (Some ''Which company are you referring to in this question?'',
       [Llm_invoke CLARIFICATION_PROMPT [(''question'', ''What are your sustainability initiatives?'')]])"
    by (simp add: check_for_ambiguity_def invoke_chain_def scenario_env_def scenario_llm_def
        string_eval)
  show ?thesis
    using ambiguous_query_asks_back [OF _ a, of Map.empty "''10.0.0.7''"]
    by (simp add: pending_def)
qed

subsection \<open>The standard path\<close>

lemma rag_phase_standard:
  assumes "check_exact_match env tr1 q = (None, tr2)"
    and "retrieve_from_docs env tr2 q = ((ctx, srcs), tr3)"
  shows "rag_phase env store1 tr1 q sid =
     (if \<not> contains ''Error'' ctx \<and> \<not> contains ''No relevant documents'' ctx
         \<and> fst (check_relevance env tr3 q ctx)
      then (case invoke_chain env (snd (check_relevance env tr3 q ctx)) RAG_PROMPT_TEMPLATE
                   [(''context'', ctx), (''question'', q)] of
              (Inr final_answer, tr4) \<Rightarrow>
                (Inr (final_answer, ''Agent + Internal Docs'', srcs), store1, tr4)
            | (Inl e, tr4) \<Rightarrow> (Inl e, store1, tr4))
      else (Inr (permission_question, ''Agent (Multi-turn)'', []),
            store1(sid \<mapsto> \<lparr>last_agent_action = awaiting_web_permission, last_query = q\<rparr>),
            if \<not> contains ''Error'' ctx \<and> \<not> contains ''No relevant documents'' ctx
            then snd (check_relevance env tr3 q ctx) else tr3))"
  using assms by (auto simp: rag_phase_def split: prod.splits)

lemma flow_Continue:
  assumes "session_phase env session_store tr q sid = (Inr (Continue q'), store1, tr1)"
  shows "agent_decision_flow env session_store tr q sid =
     (case rag_phase env store1 tr1 q' sid of
        (Inr r, store2, tr2) \<Rightarrow> (r, store2, tr2)
      | (Inl e, store2, tr2) \<Rightarrow> (system_error e, store2, tr2))"
  using assms by (simp add: agent_decision_flow_def agent_flow_body_def)

text \<open>
  C5. The query \<open>q'\<close> (the input, or its rephrasing) reaches line 419, the confidence check
  does not trigger, and retrieval returns the context \<open>ctx\<close>. If \<open>ctx\<close> carries one of the
  two sentinel texts, or \<^verbatim>\<open>check_relevance\<close> answers \<^verbatim>\<open>False\<close>, then the flow stores
  \<^verbatim>\<open>awaiting_web_permission\<close> with \<open>q'\<close>, returns the permission question with the label
  \<^verbatim>\<open>Agent (Multi-turn)\<close> and no sources, and makes no web search during the turn. With a
  sentinel the turn ends at the trace that retrieval left: the grading prompt is not sent.
\<close>

theorem insufficient_docs_ask_permission:
  assumes phase: "session_phase env session_store tr q sid = (Inr (Continue q'), store1, tr1)"
    and trigger: "check_exact_match env tr1 q' = (None, tr2)"
    and retrieval: "retrieve_from_docs env tr2 q' = ((ctx, srcs), tr3)"
    and insufficient: "contains ''Error'' ctx \<or> contains ''No relevant documents'' ctx
                       \<or> \<not> fst (check_relevance env tr3 q' ctx)"
  shows "fst (agent_decision_flow env session_store tr q sid)
           = (permission_question, ''Agent (Multi-turn)'', [])
         \<and> fst (snd (agent_decision_flow env session_store tr q sid))
           = session_store(sid \<mapsto>
               \<lparr>last_agent_action = awaiting_web_permission, last_query = q'\<rparr>)
         \<and> filter is_web_search
              (turn_calls tr (snd (snd (agent_decision_flow env session_store tr q sid)))) = []
         \<and> (if contains ''Error'' ctx \<or> contains ''No relevant documents'' ctx
             then snd (snd (agent_decision_flow env session_store tr q sid)) = tr3
                  \<and> filter (uses_prompt RELEVANCE_GRADER_PROMPT)
                       (turn_calls tr (snd (snd (agent_decision_flow env session_store tr q sid))))
                     = []
             else snd (snd (agent_decision_flow env session_store tr q sid))
                  = snd (check_relevance env tr3 q' ctx))"
proof -
  let ?sentinel = "contains ''Error'' ctx \<or> contains ''No relevant documents'' ctx"
  let ?end = "if ?sentinel then tr3 else snd (check_relevance env tr3 q' ctx)"
  have store1: "store1 = session_store(sid := None)"
    and e1: "extends_with (Collect (uses_prompt CLARIFICATION_PROMPT)
                           \<union> Collect (uses_prompt REPHRASE_PROMPT)) tr tr1"
    using session_phase_Continue [OF phase] by auto
  have flow: "agent_decision_flow env session_store tr q sid =
      ((permission_question, ''Agent (Multi-turn)'', []),
       store1(sid \<mapsto> \<lparr>last_agent_action = awaiting_web_permission, last_query = q'\<rparr>),
       ?end)"
    using insufficient
    by (auto simp: flow_Continue [OF phase] rag_phase_standard [OF trigger retrieval])
  have e2: "extends_with (Collect is_retrieval) tr1 tr2"
    using check_exact_match_trace [of tr1 env q'] trigger by simp
  have e3: "extends_with (Collect is_retrieval) tr2 tr3"
    using retrieve_from_docs_extends [of tr2 env q'] retrieval by simp
  have e13: "extends_with (Collect (uses_prompt CLARIFICATION_PROMPT)
               \<union> Collect (uses_prompt REPHRASE_PROMPT) \<union> Collect is_retrieval) tr tr3"
    using extends_with_trans [OF extends_with_trans [OF e1 e2] e3] by (simp add: Un_assoc)
  have e4: "extends_with (Collect (uses_prompt RELEVANCE_GRADER_PROMPT)) tr3 ?end"
    using check_relevance_trace [of tr3 env q' ctx] by (simp add: extends_with_refl)
  have no_web: "filter is_web_search (turn_calls tr ?end) = []"
    by (rule extends_with_no_call [OF extends_with_trans [OF e13 e4]])
       (auto elim: is_retrieval.elims uses_prompt.elims)
  have no_grade: "filter (uses_prompt RELEVANCE_GRADER_PROMPT) (turn_calls tr tr3) = []"
    by (rule extends_with_no_call [OF e13])
       (auto elim: is_retrieval.elims uses_prompt.elims)
  show ?thesis
    using no_web no_grade by (simp add: flow store1)
qed

theorem insufficient_docs_ask_permission_witness:
  "agent_decision_flow
     (scenario_env [(chunk ''Shipping takes 5 days.'' ''faq.pdf'', 85 / 100)] ''clear'' ''yes'')
     Map.empty [] ''What is the refund policy?'' ''10.0.0.7''
   = ((permission_question, ''Agent (Multi-turn)'', []),
      [''10.0.0.7'' \<mapsto> pending awaiting_web_permission ''What is the refund policy?''],
      [Llm_invoke CLARIFICATION_PROMPT [(''question'', ''What is the refund policy?'')],
       Similarity_search_with_score ''What is the refund policy?'' 3,
       Similarity_search_with_score ''What is the refund policy?'' 3,
       Similarity_search_with_score ''What is the refund policy?'' 8])
   \<and> agent_decision_flow
     (scenario_env [(chunk ''Shipping takes 5 days.'' ''faq.pdf'', score_threshold)]
        ''clear'' ''no'')
     Map.empty [] ''What is the refund policy?'' ''10.0.0.7''
   = ((permission_question, ''Agent (Multi-turn)'', []),
      [''10.0.0.7'' \<mapsto> pending awaiting_web_permission ''What is the refund policy?''],
      [Llm_invoke CLARIFICATION_PROMPT [(''question'', ''What is the refund policy?'')],
       Similarity_search_with_score ''What is the refund policy?'' 3,
       Similarity_search_with_score ''What is the refund policy?'' 3,
       Similarity_search_with_score ''What is the refund policy?'' 8,
       Llm_invoke RELEVANCE_GRADER_PROMPT
         [(''question'', ''What is the refund policy?''),
          (''context'', ''Shipping takes 5 days.'')]])"
proof -
  let ?env = "scenario_env [(chunk ''Shipping takes 5 days.'' ''faq.pdf'', 85 / 100)] ''clear'' ''yes''"
  let ?env' = "scenario_env [(chunk ''Shipping takes 5 days.'' ''faq.pdf'', score_threshold)]
      ''clear'' ''no''"
  let ?q = "''What is the refund policy?''"
  let ?t1 = "[Llm_invoke CLARIFICATION_PROMPT [(''question'', ?q)]]"
  let ?t2 = "?t1 @ [Similarity_search_with_score ?q 3, Similarity_search_with_score ?q 3]"
  let ?t3 = "?t2 @ [Similarity_search_with_score ?q 8]"
  let ?t4 = "?t3 @ [Llm_invoke RELEVANCE_GRADER_PROMPT
      [(''question'', ?q), (''context'', ''Shipping takes 5 days.'')]]"
  have phase: "session_phase ?env Map.empty [] ?q ''10.0.0.7'' = (Inr (Continue ?q), Map.empty, ?t1)"
    by (simp add: session_phase_def check_for_ambiguity_def invoke_chain_def scenario_env_def
        scenario_llm_def string_eval)
  have trigger: "check_exact_match ?env ?t1 ?q = (None, ?t2)"
    by (simp add: check_exact_match_def scenario_env_def score_threshold_def)
  have retrieval: "retrieve_from_docs ?env ?t2 ?q =
      ((''No relevant documents found that meet the quality threshold.'', []), ?t3)"
    by (simp add: retrieve_from_docs_def scenario_env_def score_threshold_def)
  have sentinel: "contains ''No relevant documents''
      ''No relevant documents found that meet the quality threshold.''"
    by (simp add: startswith_def)
  have phase': "session_phase ?env' Map.empty [] ?q ''10.0.0.7'' = (Inr (Continue ?q), Map.empty, ?t1)"
    by (simp add: session_phase_def check_for_ambiguity_def invoke_chain_def scenario_env_def
        scenario_llm_def string_eval)
  have trigger': "check_exact_match ?env' ?t1 ?q = (None, ?t2)"
    by (simp add: check_exact_match_def scenario_env_def)
  have retrieval': "retrieve_from_docs ?env' ?t2 ?q =
      ((''Shipping takes 5 days.'', [''faq.pdf'']), ?t3)"
    by (simp add: retrieve_from_docs_def scenario_env_def chunk_def sources_of_def source_name_def)
  have clean: "\<not> contains ''Error'' ''Shipping takes 5 days.''"
    "\<not> contains ''No relevant documents'' ''Shipping takes 5 days.''"
    by (simp_all add: startswith_def)
  have graded: "check_relevance ?env' ?t3 ?q ''Shipping takes 5 days.'' = (False, ?t4)"
    by (simp add: check_relevance_def invoke_chain_def scenario_env_def scenario_llm_def
        string_eval)
  have first: "agent_decision_flow ?env Map.empty [] ?q ''10.0.0.7''
      = ((permission_question, ''Agent (Multi-turn)'', []),
         [''10.0.0.7'' \<mapsto> pending awaiting_web_permission ?q], ?t3)"
    using insufficient_docs_ask_permission [OF phase trigger retrieval] sentinel
    by (simp add: pending_def prod_eq_iff del: contains.simps)
  have second: "agent_decision_flow ?env' Map.empty [] ?q ''10.0.0.7''
      = ((permission_question, ''Agent (Multi-turn)'', []),
         [''10.0.0.7'' \<mapsto> pending awaiting_web_permission ?q], ?t4)"
    using insufficient_docs_ask_permission [OF phase' trigger' retrieval'] clean graded
    by (simp add: pending_def prod_eq_iff del: contains.simps)
  show ?thesis using first second by simp
qed

subsection \<open>The high-confidence path\<close>

lemma rag_phase_triggered:
  assumes "check_exact_match env tr1 q = (Some t, tr2)"
    and "retrieve_from_docs env tr2 q = ((ctx, srcs), tr3)"
  shows "rag_phase env store1 tr1 q sid =
     (if contains ''Error'' ctx \<or> contains ''No relevant documents'' ctx
      then (Inr (''I found a potential match but was unable to retrieve the full context.'',
                 ''System Error'', []), store1, tr3)
      else (case invoke_chain env tr3 RAG_PROMPT_TEMPLATE
                   [(''context'', ctx), (''question'', q)] of
              (Inr final_answer, tr4) \<Rightarrow>
                (Inr (final_answer, ''Agent (High-Confidence RAG)'', srcs), store1, tr4)
            | (Inl e, tr4) \<Rightarrow> (Inl e, store1, tr4)))"
  using assms by (auto simp: rag_phase_def split: prod.splits)





subsection \<open>Passages that contain a sentinel text\<close>

text \<open>
  C8. The query \<open>q'\<close> reaches line 419, and the search with \<^verbatim>\<open>k=8\<close> succeeds and leaves
  chunks after the filter, but their joined text contains \<^verbatim>\<open>Error\<close> or
  \<^verbatim>\<open>No relevant documents\<close>. Then the flow acts as if retrieval had failed. When the
  confidence check did not trigger, it stores \<^verbatim>\<open>awaiting_web_permission\<close> with \<open>q'\<close> and
  returns the permission question; when it did trigger, it returns the fixed message with
  the label \<^verbatim>\<open>System Error\<close>. In both cases the turn ends with the \<^verbatim>\<open>k=8\<close> search, and
  the grading prompt is not sent during the turn.
\<close>

theorem sentinel_text_in_passages:
  assumes phase: "session_phase env session_store tr q sid = (Inr (Continue q'), store1, tr1)"
    and trigger: "check_exact_match env tr1 q' = (triggered, tr2)"
    and initialised: "vectorstore env = Some search"
    and found: "search tr2 q' 8 = Inr chunks"
    and kept: "filter_chunks chunks \<noteq> []"
    and sentinel: "contains ''Error''
                 (join separator (map (page_content \<circ> fst) (filter_chunks chunks)))
               \<or> contains ''No relevant documents''
                 (join separator (map (page_content \<circ> fst) (filter_chunks chunks)))"
  shows "agent_decision_flow env session_store tr q sid =
           (case triggered of
              None \<Rightarrow>
                ((permission_question, ''Agent (Multi-turn)'', []),
                 session_store(sid \<mapsto>
                   \<lparr>last_agent_action = awaiting_web_permission, last_query = q'\<rparr>),
                 tr2 @ [Similarity_search_with_score q' 8])
            | Some t \<Rightarrow>
                ((''I found a potential match but was unable to retrieve the full context.'',
                  ''System Error'', []),
                 store1, tr2 @ [Similarity_search_with_score q' 8]))
         \<and> filter (uses_prompt RELEVANCE_GRADER_PROMPT)
              (turn_calls tr (tr2 @ [Similarity_search_with_score q' 8])) = []"
proof -
  let ?ctx = "join separator (map (page_content \<circ> fst) (filter_chunks chunks))"
  let ?tr3 = "tr2 @ [Similarity_search_with_score q' 8]"
  have retrieval: "retrieve_from_docs env tr2 q' =
      ((?ctx, sources_of env (map fst (filter_chunks chunks))), ?tr3)"
    by (rule retrieve_from_docs_context [OF initialised found kept])
  have store1: "store1 = session_store(sid := None)"
    and e1: "extends_with (Collect (uses_prompt CLARIFICATION_PROMPT)
                           \<union> Collect (uses_prompt REPHRASE_PROMPT)) tr tr1"
    using session_phase_Continue [OF phase] by auto
  have e2: "extends_with (Collect is_retrieval) tr1 tr2"
    using check_exact_match_trace [of tr1 env q'] trigger by simp
  have e3: "extends_with (Collect is_retrieval) tr2 ?tr3"
    by (simp add: extends_with_snoc)
  have "filter (uses_prompt RELEVANCE_GRADER_PROMPT) (turn_calls tr ?tr3) = []"
    by (rule extends_with_no_call [OF extends_with_trans [OF extends_with_trans [OF e1 e2] e3]])
       (auto elim: is_retrieval.elims uses_prompt.elims)
  moreover have "agent_decision_flow env session_store tr q sid =
           (case triggered of
              None \<Rightarrow>
                ((permission_question, ''Agent (Multi-turn)'', []),
                 session_store(sid \<mapsto>
                   \<lparr>last_agent_action = awaiting_web_permission, last_query = q'\<rparr>),
                 ?tr3)
            | Some t \<Rightarrow>
                ((''I found a potential match but was unable to retrieve the full context.'',
                  ''System Error'', []),
                 store1, ?tr3))"
  proof (cases triggered)
    case None
    then show ?thesis
      using sentinel trigger
      by (auto simp: flow_Continue [OF phase] rag_phase_standard [OF _ retrieval] store1)
  next
    case (Some t)
    then show ?thesis
      using sentinel trigger
      by (auto simp: flow_Continue [OF phase] rag_phase_triggered [OF _ retrieval])
  qed
  ultimately show ?thesis by simp
qed


theorem sentinel_text_in_passages_witness:
  "agent_decision_flow
     (scenario_env [(chunk ''Error codes: see appendix B.'' ''manual.pdf'', score_threshold)]
        ''clear'' ''yes'')
     Map.empty [] ''Where are the codes?'' ''10.0.0.7''
   = ((permission_question, ''Agent (Multi-turn)'', []),
      [''10.0.0.7'' \<mapsto> pending awaiting_web_permission ''Where are the codes?''],
      [Llm_invoke CLARIFICATION_PROMPT [(''question'', ''Where are the codes?'')],
       Similarity_search_with_score ''Where are the codes?'' 3,
       Similarity_search_with_score ''Where are the codes?'' 3,
       Similarity_search_with_score ''Where are the codes?'' 8])
   \<and> agent_decision_flow
     (scenario_env [(chunk ''No relevant documents were filed.'' ''audit.pdf'', 42 / 100)]
        ''clear'' ''yes'')
     Map.empty [] ''Where are the codes?'' ''10.0.0.7''
   = ((''I found a potential match but was unable to retrieve the full context.'',
       ''System Error'', []),
      Map.empty,
      [Llm_invoke CLARIFICATION_PROMPT [(''question'', ''Where are the codes?'')],
       Similarity_search_with_score ''Where are the codes?'' 3,
       Similarity_search_with_score ''Where are the codes?'' 3,
       Similarity_search_with_score ''Where are the codes?'' 8])"
proof -
  let ?c = "[(chunk ''Error codes: see appendix B.'' ''manual.pdf'', score_threshold)]"
  let ?c' = "[(chunk ''No relevant documents were filed.'' ''audit.pdf'', 42 / 100)]"
  let ?env = "scenario_env ?c ''clear'' ''yes''"
  let ?env' = "scenario_env ?c' ''clear'' ''yes''"
  let ?q = "''Where are the codes?''"
  let ?t1 = "[Llm_invoke CLARIFICATION_PROMPT [(''question'', ?q)]]"
  let ?t2 = "?t1 @ [Similarity_search_with_score ?q 3, Similarity_search_with_score ?q 3]"
  have phase: "session_phase ?env Map.empty [] ?q ''10.0.0.7'' = (Inr (Continue ?q), Map.empty, ?t1)"
    by (simp add: session_phase_def check_for_ambiguity_def invoke_chain_def scenario_env_def
        scenario_llm_def string_eval)
  have trigger: "check_exact_match ?env ?t1 ?q = (None, ?t2)"
    by (simp add: check_exact_match_def scenario_env_def)
  have initialised: "vectorstore ?env = Some (\<lambda>tr query k. Inr ?c)"
    by (simp add: scenario_env_def)
  have kept: "filter_chunks ?c = ?c" by simp
  have sentinel: "contains ''Error'' (join separator (map (page_content \<circ> fst) ?c))"
    by (simp add: chunk_def startswith_def)
  have phase': "session_phase ?env' Map.empty [] ?q ''10.0.0.7'' = (Inr (Continue ?q), Map.empty, ?t1)"
    by (simp add: session_phase_def check_for_ambiguity_def invoke_chain_def scenario_env_def
        scenario_llm_def string_eval)
  have trigger': "check_exact_match ?env' ?t1 ?q = (Some (''trigger_success'', []), ?t2)"
    by (simp add: check_exact_match_def scenario_env_def score_threshold_def)
  have initialised': "vectorstore ?env' = Some (\<lambda>tr query k. Inr ?c')"
    by (simp add: scenario_env_def)
  have kept': "filter_chunks ?c' = ?c'" by (simp add: score_threshold_def)
  have sentinel': "contains ''No relevant documents''
      (join separator (map (page_content \<circ> fst) ?c'))"
    by (simp add: chunk_def startswith_def)
  have first: "agent_decision_flow ?env Map.empty [] ?q ''10.0.0.7''
      = ((permission_question, ''Agent (Multi-turn)'', []),
         [''10.0.0.7'' \<mapsto> pending awaiting_web_permission ?q],
         ?t2 @ [Similarity_search_with_score ?q 8])"
    using sentinel_text_in_passages [OF phase trigger initialised, of ?c] kept sentinel
    by (simp add: pending_def del: contains.simps filter_chunks.simps)
  have second: "agent_decision_flow ?env' Map.empty [] ?q ''10.0.0.7''
      = ((''I found a potential match but was unable to retrieve the full context.'',
          ''System Error'', []), Map.empty, ?t2 @ [Similarity_search_with_score ?q 8])"
    using sentinel_text_in_passages [OF phase' trigger' initialised', of ?c'] kept' sentinel'
    by (simp del: contains.simps filter_chunks.simps)
  show ?thesis using first second by simp
qed

subsection \<open>A pending web permission\<close>

lemma search_web_trace:
  "serper_search env = Some run \<Longrightarrow> snd (search_web env tr query) = tr @ [Serper_run query]"
  by (auto simp: search_web_def split: sum.splits)

text \<open>
  C3, as the claim states it, fails: an input is not trimmed before it is compared. The
  input \<^verbatim>\<open>" yes"\<close> equals \<^verbatim>\<open>yes\<close> after trimming and lower-casing, and the flow declines.
\<close>

theorem untrimmed_yes_declines:
  "lower (strip '' yes'') = ''yes''
   \<and> agent_decision_flow (scenario_env [] ''clear'' ''no'')
       [''10.0.0.7'' \<mapsto> pending awaiting_web_permission ''What is the refund policy?'']
       [] '' yes'' ''10.0.0.7''
     = ((''Understood. I will not perform a web search at this time.'', ''Agent Response'', []),
        Map.empty, [])"
  by (simp add: agent_decision_flow_def agent_flow_body_def session_phase_def pending_def
      string_eval)

text \<open>
  C3, amended. In a session that awaits the web permission, the input is affirmative exactly
  when its lower-cased form, not trimmed, is one of \<^verbatim>\<open>yes\<close>, \<^verbatim>\<open>y\<close>, \<^verbatim>\<open>sure\<close>,
  \<^verbatim>\<open>ok\<close>. On an affirmative input the flow runs \<^verbatim>\<open>search_web\<close> on the stored query,
  removes the session, and invokes the model with the web prompt on the stored query and the
  search output; the answer is returned with the label \<^verbatim>\<open>Agent + Web Search\<close> and no sources
  (an exception of that call becomes the error response of the handler). On any other input the
  flow removes the session and returns the decline message with the label
  \<^verbatim>\<open>Agent Response\<close>, and the trace is unchanged: nothing was called.
\<close>

theorem web_permission_turn:
  assumes "session_store sid = Some s" and "last_agent_action s = awaiting_web_permission"
  shows "agent_decision_flow env session_store tr q sid =
     (if lower q \<in> {''yes'', ''y'', ''sure'', ''ok''}
      then (case invoke_chain env (snd (search_web env tr (last_query s)))
                   WEB_SYNTHESIS_PROMPT_TEMPLATE
                   [(''question'', last_query s),
                    (''search_results'', fst (search_web env tr (last_query s)))] of
              (Inr final_answer, tr2) \<Rightarrow>
                ((final_answer, ''Agent + Web Search'', []), session_store(sid := None), tr2)
            | (Inl e, tr2) \<Rightarrow> (system_error e, session_store(sid := None), tr2))
      else ((''Understood. I will not perform a web search at this time.'',
             ''Agent Response'', []),
            session_store(sid := None), tr))"
  using assms
  by (auto simp: agent_decision_flow_def agent_flow_body_def session_phase_def
      split: prod.splits sum.splits)

theorem web_permission_turn_witness:
  "agent_decision_flow (scenario_env [] ''clear'' ''no'')
     [''10.0.0.7'' \<mapsto> pending awaiting_web_permission ''What is the refund policy?'']
     [] ''OK'' ''10.0.0.7''
   = ((''An answer from the web.'', ''Agent + Web Search'', []), Map.empty,
      [Serper_run ''What is the refund policy?'',
       Llm_invoke WEB_SYNTHESIS_PROMPT_TEMPLATE
         [(''question'', ''What is the refund policy?''),
          (''search_results'', ''Web results'')]])
   \<and> agent_decision_flow (scenario_env [] ''clear'' ''no'')
     [''10.0.0.7'' \<mapsto> pending awaiting_web_permission ''What is the refund policy?'']
     [] ''maybe'' ''10.0.0.7''
   = ((''Understood. I will not perform a web search at this time.'', ''Agent Response'', []),
      Map.empty, [])"
proof -
  let ?env = "scenario_env [] ''clear'' ''no''"
  let ?s = "pending awaiting_web_permission ''What is the refund policy?''"
  let ?store = "[''10.0.0.7'' \<mapsto> ?s]"
  have s: "?store ''10.0.0.7'' = Some ?s" "last_agent_action ?s = awaiting_web_permission"
    "last_query ?s = ''What is the refund policy?''"
    by (simp_all add: pending_def)
  have ok: "lower ''OK'' = ''ok''" and maybe: "lower ''maybe'' = ''maybe''"
    by (simp_all add: string_eval)
  have web: "search_web ?env [] ''What is the refund policy?'' =
      (''Web results'', [Serper_run ''What is the refund policy?''])"
    by (simp add: search_web_def scenario_env_def)
  have synth: "invoke_chain ?env [Serper_run ''What is the refund policy?'']
      WEB_SYNTHESIS_PROMPT_TEMPLATE
      [(''question'', ''What is the refund policy?''),
       (''search_results'', ''Web results'')]
      = (Inr ''An answer from the web.'',
         [Serper_run ''What is the refund policy?'',
          Llm_invoke WEB_SYNTHESIS_PROMPT_TEMPLATE
            [(''question'', ''What is the refund policy?''),
             (''search_results'', ''Web results'')]])"
    by (simp add: invoke_chain_def scenario_env_def scenario_llm_def)
  show ?thesis
    using web_permission_turn [of ?store "''10.0.0.7''" ?s ?env "[]" "''OK''", OF s(1) s(2)]
      web_permission_turn [of ?store "''10.0.0.7''" ?s ?env "[]" "''maybe''", OF s(1) s(2)]
    by (simp add: s(3) ok maybe web synth)
qed

subsection \<open>A pending clarification\<close>

lemma invoke_chain_trace: "extends_with (Collect (uses_prompt p)) tr (snd (invoke_chain env tr p inputs))"
  by (auto simp: invoke_chain_def extends_with_def split: option.splits)

lemma rag_phase_trace:
  "extends_with (Collect is_retrieval \<union> Collect (uses_prompt RELEVANCE_GRADER_PROMPT)
                 \<union> Collect (uses_prompt RAG_PROMPT_TEMPLATE))
     tr (snd (snd (rag_phase env session_store tr q sid)))"
proof -
  let ?R = "Collect is_retrieval" and ?G = "Collect (uses_prompt RELEVANCE_GRADER_PROMPT)"
    and ?S = "Collect (uses_prompt RAG_PROMPT_TEMPLATE)"
  obtain triggered tr1 where t: "check_exact_match env tr q = (triggered, tr1)"
    by (cases "check_exact_match env tr q")
  obtain ctx srcs tr2 where r: "retrieve_from_docs env tr1 q = ((ctx, srcs), tr2)"
    by (cases "retrieve_from_docs env tr1 q") auto
  have e1: "extends_with ?R tr tr1" using check_exact_match_trace [of tr env q] t by simp
  have e2: "extends_with ?R tr1 tr2" using retrieve_from_docs_extends [of tr1 env q] r by simp
  have e12: "extends_with ?R tr tr2" using extends_with_trans [OF e1 e2] by simp
  have e3: "extends_with ?G tr2 (snd (check_relevance env tr2 q ctx))"
    by (rule check_relevance_trace)
  have e4: "extends_with ?S t' (snd (invoke_chain env t' RAG_PROMPT_TEMPLATE i))" for t' i
    by (rule invoke_chain_trace)
  have a: "extends_with (?R \<union> ?G \<union> ?S) tr tr2"
    using extends_with_trans [OF extends_with_trans [OF e12 extends_with_refl] extends_with_refl]
    by simp
  have b: "extends_with (?R \<union> ?G \<union> ?S) tr (snd (check_relevance env tr2 q ctx))"
    using extends_with_trans [OF extends_with_trans [OF e12 e3] extends_with_refl] by simp
  have c: "extends_with (?R \<union> ?G \<union> ?S) tr t4"
    if "invoke_chain env tr2 RAG_PROMPT_TEMPLATE i = (res, t4)" for i res t4
    using extends_with_trans [OF extends_with_trans [OF e12 extends_with_refl] e4 [of tr2 i]] that
    by simp
  have d: "extends_with (?R \<union> ?G \<union> ?S) tr t4"
    if "invoke_chain env (snd (check_relevance env tr2 q ctx)) RAG_PROMPT_TEMPLATE i = (res, t4)"
    for i res t4
    using extends_with_trans [OF extends_with_trans [OF e12 e3] e4 [of _ i]] that by simp
  show ?thesis
  proof (cases triggered)
    case None
    then show ?thesis
      using a b d t r
      by (auto simp: rag_phase_standard [OF _ r] split: prod.splits sum.splits)
  next
    case (Some x)
    then show ?thesis
      using a c t r
      by (auto simp: rag_phase_triggered [OF _ r] split: prod.splits sum.splits)
  qed
qed

text \<open>
  C1, as the claim states it, fails: after the rephrasing the flow goes on at the confidence
  check, and the ambiguity prompt is not sent. Here the model would answer the ambiguity prompt
  with a question for any query, and the turn still ends with a synthesized answer; no call
  of the turn uses the ambiguity prompt.
\<close>

theorem rephrased_query_skips_ambiguity_check:
  "agent_decision_flow
     (scenario_env [(chunk ''Acme Corp plants trees.'' ''acme.pdf'', 42 / 100)]
        ''Which company are you referring to in this question?'' ''no'')
     [''10.0.0.7'' \<mapsto> pending awaiting_clarification ''What are your sustainability initiatives?'']
     [] ''Acme Corp'' ''10.0.0.7''
   = ((''An answer from the documents.'', ''Agent (High-Confidence RAG)'', [''acme.pdf'']),
      Map.empty,
      [Llm_invoke REPHRASE_PROMPT
         [(''original_question'', ''What are your sustainability initiatives?''),
          (''clarification_detail'', ''Acme Corp'')],
       Similarity_search_with_score ''What are Acme Corp's sustainability initiatives?'' 3,
       Similarity_search_with_score ''What are Acme Corp's sustainability initiatives?'' 3,
       Similarity_search_with_score ''What are Acme Corp's sustainability initiatives?'' 8,
       Llm_invoke RAG_PROMPT_TEMPLATE
         [(''context'', ''Acme Corp plants trees.''),
          (''question'', ''What are Acme Corp's sustainability initiatives?'')]])"
proof -
  have "\<not> contains ''Error'' ''Acme Corp plants trees.''"
    and "\<not> contains ''No relevant documents'' ''Acme Corp plants trees.''"
    by (simp_all add: startswith_def)
  then show ?thesis
    by (simp add: agent_decision_flow_def agent_flow_body_def session_phase_def rag_phase_def
        check_exact_match_def retrieve_from_docs_def invoke_chain_def scenario_env_def
        scenario_llm_def chunk_def sources_of_def source_name_def pending_def score_threshold_def
        del: contains.simps)
qed

text \<open>
  C1, amended. In a session that awaits a clarification, the flow invokes the model with the
  rephrase prompt on the stored query and the input. When that call returns \<open>q'\<close>, the flow
  removes the session and goes on at line 419 with \<open>q'\<close>: the rest of the turn is the
  confidence check, retrieval, grading and synthesis on \<open>q'\<close>, and the ambiguity prompt is not
  sent during the turn.
\<close>

theorem clarification_turn:
  assumes "session_store sid = Some s" and "last_agent_action s = awaiting_clarification"
    and "llm env = Some model"
    and "model tr REPHRASE_PROMPT
           [(''original_question'', last_query s), (''clarification_detail'', q)] = Inr q'"
  shows "agent_decision_flow env session_store tr q sid =
           (case rag_phase env (session_store(sid := None))
                   (tr @ [Llm_invoke REPHRASE_PROMPT
                            [(''original_question'', last_query s),
                             (''clarification_detail'', q)]]) q' sid of
              (Inr r, store2, tr2) \<Rightarrow> (r, store2, tr2)
            | (Inl e, store2, tr2) \<Rightarrow> (system_error e, store2, tr2))
         \<and> filter (uses_prompt CLARIFICATION_PROMPT)
              (turn_calls tr (snd (snd (agent_decision_flow env session_store tr q sid)))) = []"
proof -
  let ?call = "Llm_invoke REPHRASE_PROMPT
      [(''original_question'', last_query s), (''clarification_detail'', q)]"
  let ?rag = "rag_phase env (session_store(sid := None)) (tr @ [?call]) q' sid"
  have phase: "session_phase env session_store tr q sid =
      (Inr (Continue q'), session_store(sid := None), tr @ [?call])"
    using assms by (simp add: session_phase_def invoke_chain_def)
  have flow: "agent_decision_flow env session_store tr q sid =
           (case ?rag of
              (Inr r, store2, tr2) \<Rightarrow> (r, store2, tr2)
            | (Inl e, store2, tr2) \<Rightarrow> (system_error e, store2, tr2))"
    by (rule flow_Continue [OF phase])
  then have end_trace: "snd (snd (agent_decision_flow env session_store tr q sid)) = snd (snd ?rag)"
    by (auto split: prod.splits sum.splits)
  have "extends_with (Collect (uses_prompt REPHRASE_PROMPT)) tr (tr @ [?call])"
    by (simp add: extends_with_snoc)
  from extends_with_trans [OF this rag_phase_trace]
  have "filter (uses_prompt CLARIFICATION_PROMPT) (turn_calls tr (snd (snd ?rag))) = []"
    by (rule extends_with_no_call) (auto elim: is_retrieval.elims uses_prompt.elims)
  then show ?thesis using flow end_trace by simp
qed


theorem clarification_turn_witness:
  "agent_decision_flow (scenario_env [] ''Which company?'' ''no'')
     [''10.0.0.7'' \<mapsto> pending awaiting_clarification ''What are your sustainability initiatives?'']
     [] ''Acme Corp'' ''10.0.0.7''
   = ((permission_question, ''Agent (Multi-turn)'', []),
      [''10.0.0.7'' \<mapsto>
         pending awaiting_web_permission ''What are Acme Corp's sustainability initiatives?''],
      [Llm_invoke REPHRASE_PROMPT
         [(''original_question'', ''What are your sustainability initiatives?''),
          (''clarification_detail'', ''Acme Corp'')],
       Similarity_search_with_score ''What are Acme Corp's sustainability initiatives?'' 3,
       Similarity_search_with_score ''What are Acme Corp's sustainability initiatives?'' 3,
       Similarity_search_with_score ''What are Acme Corp's sustainability initiatives?'' 8])
   \<and> filter (uses_prompt CLARIFICATION_PROMPT)
        (turn_calls []
           (snd (snd (agent_decision_flow (scenario_env [] ''Which company?'' ''no'')
              [''10.0.0.7'' \<mapsto>
                 pending awaiting_clarification ''What are your sustainability initiatives?'']
              [] ''Acme Corp'' ''10.0.0.7'')))) = []"
proof -
  let ?env = "scenario_env [] ''Which company?'' ''no''"
  let ?s = "pending awaiting_clarification ''What are your sustainability initiatives?''"
  let ?store = "[''10.0.0.7'' \<mapsto> ?s]"
  let ?q' = "''What are Acme Corp's sustainability initiatives?''"
  let ?t1 = "[Llm_invoke REPHRASE_PROMPT
         [(''original_question'', ''What are your sustainability initiatives?''),
          (''clarification_detail'', ''Acme Corp'')]]"
  have s: "?store ''10.0.0.7'' = Some ?s" "last_agent_action ?s = awaiting_clarification"
    "last_query ?s = ''What are your sustainability initiatives?''"
    by (simp_all add: pending_def)
  have model: "llm ?env = Some (scenario_llm ''Which company?'' ''no'')"
    by (simp add: scenario_env_def)
  have rephrased: "scenario_llm ''Which company?'' ''no'' [] REPHRASE_PROMPT
      [(''original_question'', last_query ?s), (''clarification_detail'', ''Acme Corp'')]
      = Inr ?q'"
    by (simp add: scenario_llm_def)
  have sentinel: "contains ''No relevant documents''
      ''No relevant documents found that meet the quality threshold.''"
    by (simp add: startswith_def)
  have rag: "rag_phase ?env Map.empty ?t1 ?q' ''10.0.0.7'' =
      (Inr (permission_question, ''Agent (Multi-turn)'', []),
       [''10.0.0.7'' \<mapsto> pending awaiting_web_permission ?q'],
       ?t1 @ [Similarity_search_with_score ?q' 3, Similarity_search_with_score ?q' 3,
              Similarity_search_with_score ?q' 8])"
    using sentinel
    by (simp add: rag_phase_def check_exact_match_def retrieve_from_docs_def scenario_env_def
        pending_def del: contains.simps)
  show ?thesis
    using clarification_turn [of ?store "''10.0.0.7''" ?s ?env _ "[]" "''Acme Corp''" ?q',
        OF s(1) s(2) model rephrased]
    by (simp add: s(3) rag turn_calls_def)
qed

subsection \<open>Sessions after a turn\<close>

text \<open>
  C2. A session awaits a clarification and the rephrasing call raises. The turn returns the
  label \<^verbatim>\<open>System Error\<close>, and the session's entry is still in the store: line 406 removes it
  only after the call at line 400 has returned.
\<close>

theorem failed_rephrase_keeps_session:
  "agent_decision_flow (failing_llm_env [])
     [''10.0.0.7'' \<mapsto> pending awaiting_clarification ''What are your sustainability initiatives?'']
     [] ''Acme Corp'' ''10.0.0.7''
   = ((''An internal agent error occurred: timed out'', ''System Error'', []),
      [''10.0.0.7'' \<mapsto> pending awaiting_clarification ''What are your sustainability initiatives?''],
      [Llm_invoke REPHRASE_PROMPT
         [(''original_question'', ''What are your sustainability initiatives?''),
          (''clarification_detail'', ''Acme Corp'')]])"
  by (simp add: agent_decision_flow_def agent_flow_body_def session_phase_def invoke_chain_def
      failing_llm_env_def scenario_env_def pending_def system_error_def)

text \<open>
  In every other case the claim holds: unless the session awaited a clarification and the
  rephrasing raised, a turn whose label is neither \<^verbatim>\<open>Agent (Clarification)\<close> nor
  \<^verbatim>\<open>Agent (Multi-turn)\<close> leaves no entry for the session.
\<close>

lemma rag_phase_store:
  assumes "rag_phase env store1 tr1 q sid = (res, store2, tr2)"
  shows "store2 = store1 \<or> res = Inr (permission_question, ''Agent (Multi-turn)'', [])"
proof -
  obtain triggered t1 where t: "check_exact_match env tr1 q = (triggered, t1)"
    by (cases "check_exact_match env tr1 q")
  obtain ctx srcs t2 where r: "retrieve_from_docs env t1 q = ((ctx, srcs), t2)"
    by (cases "retrieve_from_docs env t1 q") auto
  show ?thesis
  proof (cases triggered)
    case None
    then show ?thesis
      using assms t by (auto simp: rag_phase_standard [OF _ r] split: if_splits prod.splits sum.splits)
  next
    case (Some x)
    then show ?thesis
      using assms t by (auto simp: rag_phase_triggered [OF _ r] split: if_splits prod.splits sum.splits)
  qed
qed

lemma session_phase_web_permission:
  assumes "session_store sid = Some s" and "last_agent_action s = awaiting_web_permission"
  shows "fst (snd (session_phase env session_store tr q sid)) = session_store(sid := None)"
  using assms by (simp add: session_phase_def split: prod.splits sum.splits)

lemma session_phase_clarification:
  assumes "session_store sid = Some s" and "last_agent_action s = awaiting_clarification"
  shows "session_phase env session_store tr q sid =
     (case invoke_chain env tr REPHRASE_PROMPT
             [(''original_question'', last_query s), (''clarification_detail'', q)] of
        (Inr new_query, tr1) \<Rightarrow> (Inr (Continue new_query), session_store(sid := None), tr1)
      | (Inl e, tr1) \<Rightarrow> (Inl e, session_store, tr1))"
  using assms by (simp add: session_phase_def)

lemma session_phase_fresh:
  assumes "session_store sid = None"
  shows "session_phase env session_store tr q sid =
     (case check_for_ambiguity env tr q of
        (Some ambiguity_check, tr1) \<Rightarrow>
          (if ambiguity_check \<noteq> [] \<and> ambiguity_check \<noteq> ''clear''
           then (Inr (Return (ambiguity_check, ''Agent (Clarification)'', [])),
                 session_store(sid \<mapsto>
                   \<lparr>last_agent_action = awaiting_clarification, last_query = q\<rparr>), tr1)
           else (Inr (Continue q), session_store, tr1))
      | (None, tr1) \<Rightarrow> (Inr (Continue q), session_store, tr1))"
  using assms by (simp add: session_phase_def)

lemma session_phase_store:
  assumes phase: "session_phase env session_store tr q sid = (res, store1, tr1)"
    and rephrased: "\<And>s. session_store sid = Some s \<Longrightarrow>
        last_agent_action s = awaiting_clarification \<Longrightarrow>
        \<exists>q'. fst (invoke_chain env tr REPHRASE_PROMPT
                 [(''original_question'', last_query s), (''clarification_detail'', q)]) = Inr q'"
  shows "store1 sid = None \<or> (\<exists>a. res = Inr (Return (a, ''Agent (Clarification)'', [])))"
proof (cases "session_store sid")
  case None
  then show ?thesis
    using phase by (auto simp: session_phase_fresh split: prod.splits option.splits if_splits)
next
  case (Some s)
  show ?thesis
  proof (cases "last_agent_action s")
    case awaiting_web_permission
    from session_phase_web_permission [of session_store sid s env tr q, OF Some this] phase
    show ?thesis by simp
  next
    case awaiting_clarification
    from rephrased [OF Some this] phase show ?thesis
      by (auto simp: session_phase_clarification [of session_store sid s, OF Some awaiting_clarification]
          split: prod.splits sum.splits)
  qed
qed

lemma terminal_response_clears_session:
  assumes flow: "agent_decision_flow env session_store tr q sid = ((answer, label, srcs), store', tr')"
    and label: "label \<noteq> ''Agent (Clarification)''" "label \<noteq> ''Agent (Multi-turn)''"
    and rephrased: "\<And>s. session_store sid = Some s \<Longrightarrow>
        last_agent_action s = awaiting_clarification \<Longrightarrow>
        \<exists>q'. fst (invoke_chain env tr REPHRASE_PROMPT
                 [(''original_question'', last_query s), (''clarification_detail'', q)]) = Inr q'"
  shows "store' sid = None"
proof -
  obtain res store1 tr1 where phase: "session_phase env session_store tr q sid = (res, store1, tr1)"
    by (cases "session_phase env session_store tr q sid")
  note cleared = session_phase_store [OF phase rephrased]
  show ?thesis
  proof (cases res)
    case (Inl e)
    then have "store' = store1"
      using flow phase by (simp add: agent_decision_flow_def agent_flow_body_def)
    then show ?thesis using cleared Inl by simp
  next
    case (Inr out)
    show ?thesis
    proof (cases out)
      case (Return r)
      then have "store' = store1" and "r = (answer, label, srcs)"
        using flow phase Inr by (simp_all add: agent_decision_flow_def agent_flow_body_def)
      then show ?thesis using cleared Inr Return label(1) by simp
    next
      case (Continue q')
      then have p: "session_phase env session_store tr q sid = (Inr (Continue q'), store1, tr1)"
        using phase Inr by simp
      have store1: "store1 sid = None" using session_phase_Continue [OF p] by simp
      obtain res2 store2 tr2 where rag: "rag_phase env store1 tr1 q' sid = (res2, store2, tr2)"
        by (cases "rag_phase env store1 tr1 q' sid")
      have "store' = store2" and "res2 = Inr (answer, label, srcs) \<or> (\<exists>e. res2 = Inl e)"
        using flow rag by (auto simp: flow_Continue [OF p] split: sum.splits)
      then show ?thesis
        using rag_phase_store [OF rag] store1 label(2) by auto
    qed
  qed
qed

subsection \<open>The handler\<close>

lemma invoke_chain_raises:
  assumes "fst (invoke_chain env tr p inputs) = Inl e"
  shows "(llm env = None \<and> e = pipe_none_error env)
         \<or> (\<exists>model. llm env = Some model \<and> model tr p inputs = Inl e)"
  using assms by (auto simp: invoke_chain_def split: option.splits)

lemma rag_phase_raises:
  assumes "fst (rag_phase env store1 tr1 q sid) = Inl e"
  shows "\<exists>t inputs. fst (invoke_chain env t RAG_PROMPT_TEMPLATE inputs) = Inl e"
proof -
  obtain triggered t1 where t: "check_exact_match env tr1 q = (triggered, t1)"
    by (cases "check_exact_match env tr1 q")
  obtain ctx srcs t2 where r: "retrieve_from_docs env t1 q = ((ctx, srcs), t2)"
    by (cases "retrieve_from_docs env t1 q") auto
  show ?thesis
  proof (cases triggered)
    case None
    with assms t show ?thesis
      by (simp add: rag_phase_standard [OF _ r] split: if_splits prod.splits sum.splits)
         (metis fst_conv)
  next
    case (Some x)
    with assms t show ?thesis
      by (simp add: rag_phase_triggered [OF _ r] split: if_splits prod.splits sum.splits)
         (metis fst_conv)
  qed
qed

lemma session_phase_raises:
  assumes "fst (session_phase env session_store tr q sid) = Inl e"
  shows "\<exists>t p inputs. p \<in> {REPHRASE_PROMPT, WEB_SYNTHESIS_PROMPT_TEMPLATE}
           \<and> fst (invoke_chain env t p inputs) = Inl e"
proof (cases "session_store sid")
  case None
  with assms show ?thesis
    by (simp add: session_phase_fresh split: prod.splits option.splits if_splits)
next
  case (Some s)
  show ?thesis
  proof (cases "last_agent_action s")
    case awaiting_web_permission
    with assms Some show ?thesis
      by (simp add: session_phase_def split: prod.splits sum.splits if_splits)
         (metis fst_conv)
  next
    case awaiting_clarification
    with assms Some show ?thesis
      by (simp add: session_phase_clarification [of session_store sid s]
          split: prod.splits sum.splits) (metis fst_conv)
  qed
qed

text \<open>
  An exception reaches the handler only from a call to the model that rephrases or
  synthesizes: the tools catch what the vector store, the web search and the grading and
  ambiguity calls raise.
\<close>

lemma body_raises_only_from_model:
  assumes "fst (agent_flow_body env session_store tr q sid) = Inl e"
  shows "\<exists>t p inputs.
           p \<in> {REPHRASE_PROMPT, WEB_SYNTHESIS_PROMPT_TEMPLATE, RAG_PROMPT_TEMPLATE}
           \<and> ((llm env = None \<and> e = pipe_none_error env)
                \<or> (\<exists>model. llm env = Some model \<and> model t p inputs = Inl e))"
proof -
  obtain res store1 tr1 where phase: "session_phase env session_store tr q sid = (res, store1, tr1)"
    by (cases "session_phase env session_store tr q sid")
  have "\<exists>t p inputs. p \<in> {REPHRASE_PROMPT, WEB_SYNTHESIS_PROMPT_TEMPLATE, RAG_PROMPT_TEMPLATE}
           \<and> fst (invoke_chain env t p inputs) = Inl e"
  proof (cases res)
    case (Inl e')
    then have "e' = e" using assms phase by (simp add: agent_flow_body_def)
    then have "fst (session_phase env session_store tr q sid) = Inl e" using phase Inl by simp
    from session_phase_raises [OF this] show ?thesis by blast
  next
    case (Inr out)
    show ?thesis
    proof (cases out)
      case (Return r)
      then show ?thesis using assms phase Inr by (simp add: agent_flow_body_def)
    next
      case (Continue q')
      then have "fst (rag_phase env store1 tr1 q' sid) = Inl e"
        using assms phase Inr by (simp add: agent_flow_body_def)
      from rag_phase_raises [OF this] show ?thesis by blast
    qed
  qed
  then obtain t p inputs
    where p: "p \<in> {REPHRASE_PROMPT, WEB_SYNTHESIS_PROMPT_TEMPLATE, RAG_PROMPT_TEMPLATE}"
      and raised: "fst (invoke_chain env t p inputs) = Inl e"
    by blast
  from invoke_chain_raises [OF raised] p show ?thesis by blast
qed

text \<open>
  C4, as the claim states it, fails: an exception raised inside a tool is caught by the tool.
  Here every search of the vector store raises. \<^verbatim>\<open>check_exact_match\<close> answers
  \<^verbatim>\<open>None\<close>, \<^verbatim>\<open>retrieve_from_docs\<close> returns its error text, and the turn ends with the
  permission question and the label \<^verbatim>\<open>Agent (Multi-turn)\<close>: the response is not the
  handler's and does not carry the error detail.
\<close>

theorem store_exception_is_absorbed:
  "retrieve_from_docs failing_store_env [] ''What is the refund policy?''
     = ((''Error during local document retrieval: connection refused'', []),
        [Similarity_search_with_score ''What is the refund policy?'' 8])
   \<and> agent_decision_flow failing_store_env Map.empty []
       ''What is the refund policy?'' ''10.0.0.7''
     = ((permission_question, ''Agent (Multi-turn)'', []),
        [''10.0.0.7'' \<mapsto> pending awaiting_web_permission ''What is the refund policy?''],
        [Llm_invoke CLARIFICATION_PROMPT [(''question'', ''What is the refund policy?'')],
         Similarity_search_with_score ''What is the refund policy?'' 3,
         Similarity_search_with_score ''What is the refund policy?'' 8])"
proof -
  have "contains ''Error'' (''Error during local document retrieval: '' @ ''connection refused'')"
    by (simp add: startswith_def)
  then show ?thesis
    by (simp add: agent_decision_flow_def agent_flow_body_def session_phase_def rag_phase_def
        check_for_ambiguity_def check_exact_match_def retrieve_from_docs_def invoke_chain_def
        failing_store_env_def scenario_env_def scenario_llm_def pending_def string_eval
        del: contains.simps)
qed

text \<open>
  C4, amended. An exception raised by the rephrasing call or by a synthesis call (web or RAG
  prompt) reaches the handler at line 469: the flow returns the text
  \<^verbatim>\<open>An internal agent error occurred: \<close> followed by \<^verbatim>\<open>str(e)\<close>, the label
  \<^verbatim>\<open>System Error\<close> and no sources. The four conjuncts are the four places where the flow
  makes such a call: the rephrasing of a pending clarification, the web synthesis after an
  affirmative answer, and the RAG synthesis on the high-confidence path and on the standard
  path. By \<open>body_raises_only_from_model\<close> nothing else reaches the handler.
\<close>

theorem model_exception_becomes_system_error:
  "(session_store sid = Some s \<and> last_agent_action s = awaiting_clarification
      \<and> fst (invoke_chain env tr REPHRASE_PROMPT
                [(''original_question'', last_query s), (''clarification_detail'', q)]) = Inl e
     \<longrightarrow> fst (agent_decision_flow env session_store tr q sid)
           = (''An internal agent error occurred: '' @ str e, ''System Error'', []))
   \<and> (session_store sid = Some s \<and> last_agent_action s = awaiting_web_permission
      \<and> lower q \<in> {''yes'', ''y'', ''sure'', ''ok''}
      \<and> fst (invoke_chain env (snd (search_web env tr (last_query s)))
                WEB_SYNTHESIS_PROMPT_TEMPLATE
                [(''question'', last_query s),
                 (''search_results'', fst (search_web env tr (last_query s)))]) = Inl e
     \<longrightarrow> fst (agent_decision_flow env session_store tr q sid)
           = (''An internal agent error occurred: '' @ str e, ''System Error'', []))
   \<and> (session_phase env session_store tr q sid = (Inr (Continue q'), store_after, tr_phase)
      \<and> check_exact_match env tr_phase q' = (Some hit, tr_match)
      \<and> retrieve_from_docs env tr_match q' = ((ctx, srcs), tr_docs)
      \<and> \<not> contains ''Error'' ctx \<and> \<not> contains ''No relevant documents'' ctx
      \<and> fst (invoke_chain env tr_docs RAG_PROMPT_TEMPLATE
                [(''context'', ctx), (''question'', q')]) = Inl e
     \<longrightarrow> fst (agent_decision_flow env session_store tr q sid)
           = (''An internal agent error occurred: '' @ str e, ''System Error'', []))
   \<and> (session_phase env session_store tr q sid = (Inr (Continue q'), store_after, tr_phase)
      \<and> check_exact_match env tr_phase q' = (None, tr_match)
      \<and> retrieve_from_docs env tr_match q' = ((ctx, srcs), tr_docs)
      \<and> \<not> contains ''Error'' ctx \<and> \<not> contains ''No relevant documents'' ctx
      \<and> check_relevance env tr_docs q' ctx = (True, tr_grade)
      \<and> fst (invoke_chain env tr_grade RAG_PROMPT_TEMPLATE
                [(''context'', ctx), (''question'', q')]) = Inl e
     \<longrightarrow> fst (agent_decision_flow env session_store tr q sid)
           = (''An internal agent error occurred: '' @ str e, ''System Error'', []))"
proof (intro conjI impI; elim conjE)
  assume "session_store sid = Some s" "last_agent_action s = awaiting_clarification"
    and "fst (invoke_chain env tr REPHRASE_PROMPT
                [(''original_question'', last_query s), (''clarification_detail'', q)]) = Inl e"
  then show "fst (agent_decision_flow env session_store tr q sid)
           = (''An internal agent error occurred: '' @ str e, ''System Error'', [])"
    by (auto simp: agent_decision_flow_def agent_flow_body_def system_error_def
        session_phase_clarification [of session_store sid s] split: prod.splits sum.splits)
next
  assume "session_store sid = Some s" "last_agent_action s = awaiting_web_permission"
    and "lower q \<in> {''yes'', ''y'', ''sure'', ''ok''}"
    and "fst (invoke_chain env (snd (search_web env tr (last_query s)))
                WEB_SYNTHESIS_PROMPT_TEMPLATE
                [(''question'', last_query s),
                 (''search_results'', fst (search_web env tr (last_query s)))]) = Inl e"
  then show "fst (agent_decision_flow env session_store tr q sid)
           = (''An internal agent error occurred: '' @ str e, ''System Error'', [])"
    by (auto simp: agent_decision_flow_def agent_flow_body_def system_error_def
        session_phase_def split: prod.splits sum.splits)
next
  assume phase: "session_phase env session_store tr q sid = (Inr (Continue q'), store_after, tr_phase)"
    and trigger: "check_exact_match env tr_phase q' = (Some hit, tr_match)"
    and retrieval: "retrieve_from_docs env tr_match q' = ((ctx, srcs), tr_docs)"
    and "\<not> contains ''Error'' ctx" "\<not> contains ''No relevant documents'' ctx"
    and "fst (invoke_chain env tr_docs RAG_PROMPT_TEMPLATE
                [(''context'', ctx), (''question'', q')]) = Inl e"
  then show "fst (agent_decision_flow env session_store tr q sid)
           = (''An internal agent error occurred: '' @ str e, ''System Error'', [])"
    by (auto simp: flow_Continue [OF phase] rag_phase_triggered [OF trigger retrieval]
        system_error_def split: prod.splits sum.splits)
next
  assume phase: "session_phase env session_store tr q sid = (Inr (Continue q'), store_after, tr_phase)"
    and trigger: "check_exact_match env tr_phase q' = (None, tr_match)"
    and retrieval: "retrieve_from_docs env tr_match q' = ((ctx, srcs), tr_docs)"
    and "\<not> contains ''Error'' ctx" "\<not> contains ''No relevant documents'' ctx"
    and "check_relevance env tr_docs q' ctx = (True, tr_grade)"
    and "fst (invoke_chain env tr_grade RAG_PROMPT_TEMPLATE
                [(''context'', ctx), (''question'', q')]) = Inl e"
  then show "fst (agent_decision_flow env session_store tr q sid)
           = (''An internal agent error occurred: '' @ str e, ''System Error'', [])"
    by (auto simp: flow_Continue [OF phase] rag_phase_standard [OF trigger retrieval]
        system_error_def split: prod.splits sum.splits)
qed

theorem model_exception_becomes_system_error_witness:
  "fst (agent_decision_flow (failing_synthesis_env [])
          [''10.0.0.7'' \<mapsto> pending awaiting_clarification ''What are your sustainability initiatives?'']
          [] ''Acme Corp'' ''10.0.0.7'')
     = (''An internal agent error occurred: timed out'', ''System Error'', [])
   \<and> fst (agent_decision_flow (failing_synthesis_env [])
          [''10.0.0.7'' \<mapsto> pending awaiting_web_permission ''What is the refund policy?'']
          [] ''Yes'' ''10.0.0.7'')
     = (''An internal agent error occurred: timed out'', ''System Error'', [])
   \<and> fst (agent_decision_flow
          (failing_synthesis_env [(chunk ''Refunds take 30 days.'' ''policy.pdf'', 42 / 100)])
          Map.empty [] ''What is the refund policy?'' ''10.0.0.7'')
     = (''An internal agent error occurred: timed out'', ''System Error'', [])
   \<and> fst (agent_decision_flow
          (failing_synthesis_env
             [(chunk ''Refunds take 30 days.'' ''policy.pdf'', score_threshold)])
          Map.empty [] ''What is the refund policy?'' ''10.0.0.7'')
     = (''An internal agent error occurred: timed out'', ''System Error'', [])"
proof -
  let ?e = "Exception ''timed out''"
  let ?sid = "''10.0.0.7''"
  let ?q = "''What is the refund policy?''"
  let ?c = "pending awaiting_clarification ''What are your sustainability initiatives?''"
  let ?w = "pending awaiting_web_permission ?q"
  let ?hc = "failing_synthesis_env [(chunk ''Refunds take 30 days.'' ''policy.pdf'', 42 / 100)]"
  let ?st = "failing_synthesis_env
      [(chunk ''Refunds take 30 days.'' ''policy.pdf'', score_threshold)]"
  let ?t1 = "[Llm_invoke CLARIFICATION_PROMPT [(''question'', ?q)]]"
  let ?t2 = "?t1 @ [Similarity_search_with_score ?q 3, Similarity_search_with_score ?q 3]"
  let ?t3 = "?t2 @ [Similarity_search_with_score ?q 8]"
  let ?t4 = "?t3 @ [Llm_invoke RELEVANCE_GRADER_PROMPT
      [(''question'', ?q), (''context'', ''Refunds take 30 days.'')]]"
  note defs = failing_synthesis_env_def scenario_env_def invoke_chain_def
  have yes: "lower ''Yes'' = ''yes''" by (simp add: string_eval)
  have clean: "\<not> contains ''Error'' ''Refunds take 30 days.''"
    "\<not> contains ''No relevant documents'' ''Refunds take 30 days.''"
    by (simp_all add: startswith_def)
  have rephrase: "fst (agent_decision_flow (failing_synthesis_env []) [?sid \<mapsto> ?c] []
      ''Acme Corp'' ?sid)
      = (''An internal agent error occurred: '' @ str ?e, ''System Error'', [])"
    by (rule model_exception_becomes_system_error
          [where s = ?c and tr = "[]", THEN conjunct1, THEN mp])
       (simp add: defs pending_def)
  have web: "fst (agent_decision_flow (failing_synthesis_env []) [?sid \<mapsto> ?w] []
      ''Yes'' ?sid)
      = (''An internal agent error occurred: '' @ str ?e, ''System Error'', [])"
    by (rule model_exception_becomes_system_error
          [where s = ?w and tr = "[]", THEN conjunct2, THEN conjunct1, THEN mp])
       (simp add: defs pending_def yes search_web_def)
  have phase: "session_phase ?hc Map.empty [] ?q ?sid = (Inr (Continue ?q), Map.empty, ?t1)"
    by (simp add: session_phase_def check_for_ambiguity_def defs string_eval)
  have trigger: "check_exact_match ?hc ?t1 ?q = (Some (''trigger_success'', []), ?t2)"
    by (simp add: check_exact_match_def defs score_threshold_def)
  have retrieval: "retrieve_from_docs ?hc ?t2 ?q =
      ((''Refunds take 30 days.'', [''policy.pdf'']), ?t3)"
    by (simp add: retrieve_from_docs_def defs score_threshold_def chunk_def sources_of_def
        source_name_def)
  have raised: "fst (invoke_chain ?hc ?t3 RAG_PROMPT_TEMPLATE
      [(''context'', ''Refunds take 30 days.''), (''question'', ?q)]) = Inl ?e"
    by (simp add: defs)
  have triggered: "fst (agent_decision_flow ?hc Map.empty [] ?q ?sid)
      = (''An internal agent error occurred: '' @ str ?e, ''System Error'', [])"
    by (rule model_exception_becomes_system_error
          [where tr = "[]" and q' = ?q and store_after = Map.empty and tr_phase = ?t1
             and hit = "(''trigger_success'', [])" and tr_match = ?t2
             and ctx = "''Refunds take 30 days.''" and srcs = "[''policy.pdf'']"
             and tr_docs = ?t3,
           THEN conjunct2, THEN conjunct2, THEN conjunct1, THEN mp])
       (use phase trigger retrieval clean raised in \<open>simp del: contains.simps\<close>)
  have phase': "session_phase ?st Map.empty [] ?q ?sid = (Inr (Continue ?q), Map.empty, ?t1)"
    by (simp add: session_phase_def check_for_ambiguity_def defs string_eval)
  have trigger': "check_exact_match ?st ?t1 ?q = (None, ?t2)"
    by (simp add: check_exact_match_def defs)
  have retrieval': "retrieve_from_docs ?st ?t2 ?q =
      ((''Refunds take 30 days.'', [''policy.pdf'']), ?t3)"
    by (simp add: retrieve_from_docs_def defs chunk_def sources_of_def source_name_def)
  have graded: "check_relevance ?st ?t3 ?q ''Refunds take 30 days.'' = (True, ?t4)"
    by (simp add: check_relevance_def defs string_eval)
  have raised': "fst (invoke_chain ?st ?t4 RAG_PROMPT_TEMPLATE
      [(''context'', ''Refunds take 30 days.''), (''question'', ?q)]) = Inl ?e"
    by (simp add: defs)
  have standard: "fst (agent_decision_flow ?st Map.empty [] ?q ?sid)
      = (''An internal agent error occurred: '' @ str ?e, ''System Error'', [])"
    by (rule model_exception_becomes_system_error
          [where tr = "[]" and q' = ?q and store_after = Map.empty and tr_phase = ?t1
             and tr_match = ?t2 and ctx = "''Refunds take 30 days.''"
             and srcs = "[''policy.pdf'']" and tr_docs = ?t3 and tr_grade = ?t4,
           THEN conjunct2, THEN conjunct2, THEN conjunct2, THEN mp])
       (use phase' trigger' retrieval' clean graded raised' in \<open>simp del: contains.simps\<close>)
  show ?thesis using rephrase web triggered standard by simp
qed

end
